theory Spec2Isabelle
  imports Main "HOL-Library.AList"
begin

section \<open>The Gmail agent's caches\<close>

text \<open>
  A shallow embedding of \<^verbatim>\<open>src/mastra/agents/gmailAgent.ts\<close> and of the class
  \<^verbatim>\<open>GmailAuth\<close> of \<^verbatim>\<open>src/mastra/agents/gmail-auth.ts\<close>.

  The module keeps four JavaScript \<^verbatim>\<open>Map\<close>s with string keys. A \<^verbatim>\<open>Map\<close> keeps its
  entries in insertion order and \<^verbatim>\<open>cleanupGmailAgent\<close> iterates over one of them, so
  each map is an association list: \<^verbatim>\<open>get\<close> is \<^const>\<open>map_of\<close>, \<^verbatim>\<open>set\<close> is
  \<^const>\<open>AList.update\<close> (it overwrites in place or appends), \<^verbatim>\<open>delete\<close> is
  \<^const>\<open>AList.delete\<close>, \<^verbatim>\<open>clear\<close> gives the empty list and \<^verbatim>\<open>keys\<close> is
  \<open>map fst\<close>.

  Every function of the module is \<^verbatim>\<open>async\<close> or a plain function over that shared
  state. The model runs one call to completion: it is the behaviour of a call whose awaited
  promises settle with no other task touching the maps in between.
\<close>

subsection \<open>Values\<close>

text \<open>What a \<^verbatim>\<open>throw\<close> or a rejected promise carries: the text \<^verbatim>\<open>`${error}`\<close> renders.\<close>

datatype error = Thrown string

text \<open>An item of \<^verbatim>\<open>composio.connectedAccounts.list(...)\<close>: \<^verbatim>\<open>id\<close>, \<^verbatim>\<open>toolkit.slug\<close>, \<^verbatim>\<open>status\<close>.\<close>

record Connection =
  conn_id :: string
  toolkit_slug :: string
  status :: string

text \<open>The value type of \<^verbatim>\<open>authStatusCache\<close>; \<^verbatim>\<open>null\<close> is \<^const>\<open>None\<close>.\<close>

record AuthStatus =
  connected :: bool
  connectionId :: "string option"
  timestamp :: int

text \<open>An \<^verbatim>\<open>MCPClient\<close> as the module builds it: its \<^verbatim>\<open>id\<close> and the server's URL.\<close>

record MCPClient =
  client_id :: string
  server_url :: string

text \<open>
  A tool is the local \<^verbatim>\<open>authorize_gmail\<close> tool, a closure over the user id, or a tool
  loaded from the MCP server; a tool set maps tool names to tools.
\<close>

datatype tool = AuthorizeTool string | RemoteTool string

type_synonym ToolSet = "(string \<times> tool) list"

text \<open>What \<^verbatim>\<open>composio.toolkits.authorize\<close> resolves to.\<close>

record ConnectionRequest =
  redirectUrl :: string
  request_id :: string

subsection \<open>The outside world\<close>

text \<open>
  The calls that leave the module, in the order they happen, and the lines written with
  \<^verbatim>\<open>console.error\<close>. \<^verbatim>\<open>console.log\<close> output is not modelled.
\<close>

datatype event =
    ListConnectedAccounts string
  | GetTools MCPClient
  | Disconnect MCPClient
  | Authorize string
  | ConsoleError string error

text \<open>
  What the outside world answers during one call. \<^verbatim>\<open>Date.now()\<close> is read before the
  first \<^verbatim>\<open>await\<close> of a call (\<open>now\<close>: the validity check and the client id) and after
  the provider has answered (\<open>now_after\<close>: the stored timestamp); nothing relates the two
  readings. A rejected promise is \<^const>\<open>Inl\<close>; \<open>disconnect\<close> gives the error it
  rejects with, if any.
\<close>

record world =
  now :: int
  now_after :: int
  listConnectedAccounts :: "string \<Rightarrow> error + Connection list"
  getTools :: "MCPClient \<Rightarrow> error + ToolSet"
  disconnect :: "MCPClient \<Rightarrow> error option"
  authorize :: "string \<Rightarrow> error + ConnectionRequest"
  uuidv4 :: string

subsection \<open>The module's state\<close>

record state =
  mcpClientCache :: "(string \<times> MCPClient) list"
  toolsCache :: "(string \<times> ToolSet) list"
  authStatusCache :: "(string \<times> AuthStatus) list"
  userSessionCache :: "(string \<times> string) list"
  trace :: "event list"

definition initial :: state where
  "initial = \<lparr>mcpClientCache = [], toolsCache = [], authStatusCache = [],
     userSessionCache = [], trace = []\<rparr>"

definition emit :: "event \<Rightarrow> state \<Rightarrow> state" where
  "emit e s = s\<lparr>trace := trace s @ [e]\<rparr>"

definition CACHE_TTL :: int where
  "CACHE_TTL = 5 * 60 * 1000"

subsection \<open>JavaScript values\<close>

text \<open>
  A value read from the runtime context is a string or \<^verbatim>\<open>undefined\<close>; \<^verbatim>\<open>undefined\<close>,
  \<^verbatim>\<open>null\<close> and the empty string are falsy. \<open>truthy\<close> keeps a truthy value.
\<close>

definition truthy :: "string option \<Rightarrow> string option" where
  "truthy x = (case x of None \<Rightarrow> None | Some v \<Rightarrow> if v = [] then None else Some v)"

text \<open>\<^verbatim>\<open>x || d\<close>\<close>

definition or_else :: "string option \<Rightarrow> string \<Rightarrow> string" where
  "or_else x d = (case truthy x of None \<Rightarrow> d | Some v \<Rightarrow> v)"

text \<open>
  \<^verbatim>\<open>runtimeContext?.get(key)\<close>: the context is optional (\<^const>\<open>None\<close> when the
  caller passes none) and holds strings.
\<close>

type_synonym RuntimeContext = "(string \<times> string) list"

definition ctx_get :: "RuntimeContext option \<Rightarrow> string \<Rightarrow> string option" where
  "ctx_get runtimeContext key =
     (case runtimeContext of None \<Rightarrow> None | Some c \<Rightarrow> map_of c key)"

text \<open>The decimal text of a number, as a template literal renders \<^verbatim>\<open>Date.now()\<close>.\<close>

definition digit_char :: "nat \<Rightarrow> char" where
  "digit_char d = ''0123456789'' ! d"

function show_nat :: "nat \<Rightarrow> string" where
  "show_nat n = (if n < 10 then [digit_char n] else show_nat (n div 10) @ [digit_char (n mod 10)])"
  by pat_completeness auto
termination
  by (relation "measure (\<lambda>n. n)") auto

declare show_nat.simps [simp del]

definition show_int :: "int \<Rightarrow> string" where
  "show_int i = (if i < 0 then CHR ''-'' # show_nat (nat (- i)) else show_nat (nat i))"

subsection \<open>getUserId\<close>

definition getUserId :: "world \<Rightarrow> RuntimeContext option \<Rightarrow> state \<Rightarrow> string \<times> state" where
  "getUserId w runtimeContext s =
     (case truthy (ctx_get runtimeContext ''userId'') of
        Some contextUserId \<Rightarrow> (contextUserId, s)
      | None \<Rightarrow>
          (let sessionId = or_else (ctx_get runtimeContext ''sessionId'') ''default-session''
           in case map_of (userSessionCache s) sessionId of
                Some existingUserId \<Rightarrow> (existingUserId, s)
              | None \<Rightarrow>
                  (let generatedUserId = uuidv4 w
                   in (generatedUserId,
                       s\<lparr>userSessionCache :=
                           AList.update sessionId generatedUserId (userSessionCache s)\<rparr>))))"

subsection \<open>cleanupMCPClient\<close>

text \<open>
  An \<^verbatim>\<open>MCPClient\<close> object is truthy, so \<^verbatim>\<open>if (client)\<close> asks whether the key is
  present.
\<close>

definition cleanupMCPClient :: "world \<Rightarrow> string \<Rightarrow> state \<Rightarrow> state" where
  "cleanupMCPClient w key s =
     (let s1 =
        (case map_of (mcpClientCache s) key of
           Some client \<Rightarrow>
             (let s2 = emit (Disconnect client) s;
                  s3 = (case disconnect w client of
                          None \<Rightarrow> s2
                        | Some e \<Rightarrow> emit (ConsoleError ''Error disconnecting MCP client:'' e) s2)
              in s3\<lparr>mcpClientCache := AList.delete key (mcpClientCache s3)\<rparr>)
         | None \<Rightarrow> s)
      in s1\<lparr>toolsCache := AList.delete key (toolsCache s1)\<rparr>)"

subsection \<open>isCacheValid and getCachedAuthStatus\<close>

definition isCacheValid :: "world \<Rightarrow> int \<Rightarrow> bool" where
  "isCacheValid w ts = (now w - ts < CACHE_TTL)"

text \<open>\<^verbatim>\<open>cached && isCacheValid(cached.timestamp)\<close>, keeping the entry when it holds.\<close>

definition valid_entry :: "world \<Rightarrow> AuthStatus option \<Rightarrow> AuthStatus option" where
  "valid_entry w cached =
     (case cached of
        None \<Rightarrow> None
      | Some c \<Rightarrow> if isCacheValid w (timestamp c) then Some c else None)"

definition getCachedAuthStatus :: "world \<Rightarrow> string \<Rightarrow> state \<Rightarrow> AuthStatus \<times> state" where
  "getCachedAuthStatus w userId s =
     (let cacheKey = ''auth-'' @ userId;
          cached = map_of (authStatusCache s) cacheKey
      in case valid_entry w cached of
           Some c \<Rightarrow> (c, s)
         | None \<Rightarrow>
             (let s1 = emit (ListConnectedAccounts userId) s
              in case listConnectedAccounts w userId of
                   Inr items \<Rightarrow>
                     (let gmailConnection =
                            List.find (\<lambda>conn. toolkit_slug conn = ''gmail'' \<and> status conn = ''ACTIVE'')
                              items;
                          authStatus =
                            \<lparr>connected = (gmailConnection \<noteq> None),
                             connectionId = truthy (map_option conn_id gmailConnection),
                             timestamp = now_after w\<rparr>
                      in (authStatus,
                          s1\<lparr>authStatusCache :=
                               AList.update cacheKey authStatus (authStatusCache s1)\<rparr>))
                 | Inl e \<Rightarrow>
                     (let s2 = emit (ConsoleError ''Error checking auth status:'' e) s1;
                          authStatus =
                            \<lparr>connected = False, connectionId = None, timestamp = now_after w\<rparr>
                      in (authStatus,
                          s2\<lparr>authStatusCache :=
                               AList.update cacheKey authStatus (authStatusCache s2)\<rparr>))))"

subsection \<open>getCachedTools\<close>

text \<open>
  \<^verbatim>\<open>new MCPClient({...})\<close> and \<^verbatim>\<open>new URL(url)\<close> stand outside the \<^verbatim>\<open>try\<close>; the model
  takes both constructors to succeed. The empty object \<^verbatim>\<open>{}\<close> is the empty tool set.
\<close>

definition getCachedTools :: "world \<Rightarrow> string \<Rightarrow> string \<Rightarrow> string \<Rightarrow> state \<Rightarrow> ToolSet \<times> state" where
  "getCachedTools w cacheKey url userId s =
     (case map_of (toolsCache s) cacheKey of
        Some tools \<Rightarrow> (tools, s)
      | None \<Rightarrow>
          (let (mcpClient, s1) =
                 (case map_of (mcpClientCache s) cacheKey of
                    Some c \<Rightarrow> (c, s)
                  | None \<Rightarrow>
                      (let c = \<lparr>client_id = ''gmail-mcp-'' @ userId @ ''-'' @ show_int (now w),
                                server_url = url\<rparr>
                       in (c, s\<lparr>mcpClientCache := AList.update cacheKey c (mcpClientCache s)\<rparr>)));
               s2 = emit (GetTools mcpClient) s1
           in case getTools w mcpClient of
                Inr tools \<Rightarrow> (tools, s2\<lparr>toolsCache := AList.update cacheKey tools (toolsCache s2)\<rparr>)
              | Inl e \<Rightarrow>
                  ([], cleanupMCPClient w cacheKey
                         (emit (ConsoleError ''Failed to load tools from MCP server:'' e) s2))))"

subsection \<open>The agent's tools: the authorization tool and the tool-set key\<close>

text \<open>
  The result of the \<^verbatim>\<open>authorize_gmail\<close> tool; its \<^verbatim>\<open>message\<close> text is left out.
\<close>

record AuthorizeResult =
  success :: bool
  authUrl :: "string option"
  auth_connectionId :: "string option"
  auth_error :: "string option"

definition authorizeTool :: "world \<Rightarrow> string \<Rightarrow> state \<Rightarrow> AuthorizeResult \<times> state" where
  "authorizeTool w userId s =
     (let s1 = emit (Authorize userId) s
      in case authorize w userId of
           Inr connectionRequest \<Rightarrow>
             (\<lparr>success = True, authUrl = Some (redirectUrl connectionRequest),
               auth_connectionId = Some (request_id connectionRequest), auth_error = None\<rparr>,
              s1\<lparr>authStatusCache := AList.delete (''auth-'' @ userId) (authStatusCache s1)\<rparr>)
         | Inl (Thrown e) \<Rightarrow>
             (\<lparr>success = False, authUrl = None, auth_connectionId = None,
               auth_error = Some (''Failed to initiate Gmail authorization: '' @ e)\<rparr>,
              emit (ConsoleError ''Error during Gmail authorization:'' (Thrown e)) s1))"

text \<open>\<^verbatim>\<open>`gmail-${userId}-${authStatus.connectionId || 'unauth'}`\<close>\<close>

definition toolsCacheKey :: "string \<Rightarrow> AuthStatus \<Rightarrow> string" where
  "toolsCacheKey userId authStatus =
     ''gmail-'' @ userId @ ''-'' @ or_else (connectionId authStatus) ''unauth''"

definition MCP_SERVER :: string where
  "MCP_SERVER = ''https://mcp.composio.dev/composio/server/524a8d53-e118-46f8-abf0-f077f281469e/mcp''"

definition mcpUrl :: "AuthStatus \<Rightarrow> string" where
  "mcpUrl authStatus =
     (case truthy (connectionId authStatus) of
        Some cid \<Rightarrow> MCP_SERVER @ ''?connected_account_id='' @ cid
      | None \<Rightarrow> MCP_SERVER)"

text \<open>
  The agent's \<^verbatim>\<open>tools\<close> function. \<open>w\<close> answers up to the auth check and \<open>w'\<close> while
  the tools are loaded. The result is \<^verbatim>\<open>{authorize_gmail: authorizeTool, ...allTools}\<close>.
\<close>

definition agentTools ::
  "world \<Rightarrow> world \<Rightarrow> RuntimeContext option \<Rightarrow> state \<Rightarrow> ToolSet \<times> state" where
  "agentTools w w' runtimeContext s =
     (let (userId, s1) = getUserId w runtimeContext s;
          (authStatus, s2) = getCachedAuthStatus w userId s1;
          cacheKey = toolsCacheKey userId authStatus;
          url = mcpUrl authStatus;
          (allTools, s3) = getCachedTools w' cacheKey url userId s2
      in (fold (\<lambda>(name, t). AList.update name t) allTools
            [(''authorize_gmail'', AuthorizeTool userId)], s3))"

subsection \<open>Shutdown and cache clearing\<close>

text \<open>
  \<^verbatim>\<open>for (const key of mcpClientCache.keys()) await cleanupMCPClient(key)\<close>. The iterator
  of a \<^verbatim>\<open>Map\<close> is live: it walks the entries in insertion order and passes over an entry
  deleted before it is reached. The body adds no entry, so the keys still to come are among
  the keys at the start of the loop, each visited if it is still present.
\<close>

primrec cleanupLoop :: "world \<Rightarrow> string list \<Rightarrow> state \<Rightarrow> state" where
  "cleanupLoop w [] s = s"
| "cleanupLoop w (key # keys) s =
     (if map_of (mcpClientCache s) key \<noteq> None
      then cleanupLoop w keys (cleanupMCPClient w key s)
      else cleanupLoop w keys s)"

definition cleanupGmailAgent :: "world \<Rightarrow> state \<Rightarrow> state" where
  "cleanupGmailAgent w s =
     (let s1 = cleanupLoop w (map fst (mcpClientCache s)) s
      in s1\<lparr>toolsCache := [], authStatusCache := [], userSessionCache := []\<rparr>)"

text \<open>
  \<^verbatim>\<open>clearGmailAgentCache\<close> starts its two cleanups without awaiting them. The model gives
  the state once both have settled, with the events of the first before those of the
  second.
\<close>

definition clearGmailAgentCache :: "world \<Rightarrow> string \<Rightarrow> state \<Rightarrow> state" where
  "clearGmailAgentCache w userId s =
     (let s1 = s\<lparr>authStatusCache := AList.delete (''auth-'' @ userId) (authStatusCache s)\<rparr>;
          authKey = ''gmail-'' @ userId @ ''-unauth'';
          unauthKey = ''gmail-'' @ userId @ ''-null'';
          s2 = cleanupMCPClient w authKey s1
      in cleanupMCPClient w unauthKey s2)"

text \<open>\<^verbatim>\<open>clearUserSession(sessionId?)\<close>: a falsy argument clears every session.\<close>

definition clearUserSession :: "string option \<Rightarrow> state \<Rightarrow> state" where
  "clearUserSession sessionId s =
     (case truthy sessionId of
        Some sid \<Rightarrow> s\<lparr>userSessionCache := AList.delete sid (userSessionCache s)\<rparr>
      | None \<Rightarrow> s\<lparr>userSessionCache := []\<rparr>)"

subsection \<open>GmailAuth\<close>

text \<open>
  The class of \<^verbatim>\<open>gmail-auth.ts\<close>. Its provider query takes the user id and the auth
  config id. A method's result is \<^const>\<open>Inr\<close> when it returns and \<^const>\<open>Inl\<close> when
  it raises to its caller.
\<close>

record GmailAuth =
  this_userId :: string

definition GMAIL_AUTH_CONFIG_ID :: string where
  "GMAIL_AUTH_CONFIG_ID = ''ac_u_MdLEvtemfj''"

record ConnectionCheck =
  check_connected :: bool
  check_connectionId :: "string option"
  check_message :: "string option"
  check_error :: "string option"

text \<open>The body of the \<^verbatim>\<open>try\<close> block of \<^verbatim>\<open>checkConnection\<close>.\<close>

definition checkConnection_try ::
  "(string \<Rightarrow> string \<Rightarrow> error + Connection list) \<Rightarrow> GmailAuth \<Rightarrow> error + ConnectionCheck" where
  "checkConnection_try list this =
     (case list (this_userId this) GMAIL_AUTH_CONFIG_ID of
        Inl e \<Rightarrow> Inl e
      | Inr items \<Rightarrow>
          (let gmailConnection =
                 List.find (\<lambda>conn. toolkit_slug conn = ''gmail'' \<and> status conn = ''ACTIVE'') items
           in Inr \<lparr>check_connected = (gmailConnection \<noteq> None),
                   check_connectionId = map_option conn_id gmailConnection,
                   check_message =
                     Some (if gmailConnection \<noteq> None
                           then ''Gmail is connected and ready to use.''
                           else ''Gmail is not connected. Use initiateConnection to connect.''),
                   check_error = None\<rparr>))"

definition checkConnection ::
  "(string \<Rightarrow> string \<Rightarrow> error + Connection list) \<Rightarrow> GmailAuth \<Rightarrow> error + ConnectionCheck" where
  "checkConnection list this =
     (case checkConnection_try list this of
        Inr r \<Rightarrow> Inr r
      | Inl (Thrown e) \<Rightarrow>
          Inr \<lparr>check_connected = False, check_connectionId = None, check_message = None,
               check_error = Some (''Failed to check Gmail connection: '' @ e)\<rparr>)"

definition getConnectedAccountId ::
  "(string \<Rightarrow> string \<Rightarrow> error + Connection list) \<Rightarrow> GmailAuth \<Rightarrow> error + string option" where
  "getConnectedAccountId list this =
     (case checkConnection list this of
        Inl e \<Rightarrow> Inl e
      | Inr connectionStatus \<Rightarrow>
          (if check_connected connectionStatus
           then Inr (truthy (check_connectionId connectionStatus))
           else Inr None))"

section \<open>Notions used in the statements\<close>

text \<open>What one disposal leaves in the trace: the call, and the report when it rejects.\<close>

definition disposal :: "world \<Rightarrow> MCPClient \<Rightarrow> event list" where
  "disposal w client =
     Disconnect client #
       (case disconnect w client of
          None \<Rightarrow> []
        | Some e \<Rightarrow> [ConsoleError ''Error disconnecting MCP client:'' e])"

text \<open>The clients a trace disconnects, in order.\<close>

fun disconnects :: "event list \<Rightarrow> MCPClient list" where
  "disconnects [] = []"
| "disconnects (Disconnect c # es) = c # disconnects es"
| "disconnects (e # es) = disconnects es"

text \<open>
  The client a miss of \<^const>\<open>getCachedTools\<close> loads from (the cached handle, else a new
  one), and the state once \<^verbatim>\<open>getTools\<close> has been called on it.
\<close>

definition clientFor :: "world \<Rightarrow> string \<Rightarrow> string \<Rightarrow> string \<Rightarrow> state \<Rightarrow> MCPClient" where
  "clientFor w cacheKey url userId s =
     (case map_of (mcpClientCache s) cacheKey of
        Some c \<Rightarrow> c
      | None \<Rightarrow> \<lparr>client_id = ''gmail-mcp-'' @ userId @ ''-'' @ show_int (now w), server_url = url\<rparr>)"

definition withClient :: "string \<Rightarrow> MCPClient \<Rightarrow> state \<Rightarrow> state" where
  "withClient cacheKey c s =
     emit (GetTools c) (s\<lparr>mcpClientCache := AList.update cacheKey c (mcpClientCache s)\<rparr>)"

text \<open>
  The status \<^const>\<open>getCachedAuthStatus\<close> computes from the provider's answer.
\<close>

definition freshStatus :: "world \<Rightarrow> Connection list \<Rightarrow> AuthStatus" where
  "freshStatus w items =
     (let gmailConnection =
            List.find (\<lambda>conn. toolkit_slug conn = ''gmail'' \<and> status conn = ''ACTIVE'') items
      in \<lparr>connected = (gmailConnection \<noteq> None),
          connectionId = truthy (map_option conn_id gmailConnection),
          timestamp = now_after w\<rparr>)"

text \<open>
  The session a context belongs to when it names no user, and the state after a sequence
  of \<^const>\<open>getUserId\<close> calls.
\<close>

definition sessionOf :: "RuntimeContext option \<Rightarrow> string" where
  "sessionOf runtimeContext = or_else (ctx_get runtimeContext ''sessionId'') ''default-session''"

fun getUserId_calls :: "(world \<times> RuntimeContext option) list \<Rightarrow> state \<Rightarrow> state" where
  "getUserId_calls [] s = s"
| "getUserId_calls ((w, runtimeContext) # calls) s =
     getUserId_calls calls (snd (getUserId w runtimeContext s))"

subsection \<open>Concrete inputs\<close>

text \<open>A world in which every outside call succeeds, and one in which every call fails.\<close>

definition quiet_world :: world where
  "quiet_world =
     \<lparr>now = 0, now_after = 0,
      listConnectedAccounts = (\<lambda>_. Inr []),
      getTools = (\<lambda>_. Inr [(''GMAIL_SEND_EMAIL'', RemoteTool ''GMAIL_SEND_EMAIL'')]),
      disconnect = (\<lambda>_. None),
      authorize = (\<lambda>_. Inr \<lparr>redirectUrl = ''https://auth.example/r'', request_id = ''req-1''\<rparr>),
      uuidv4 = ''uuid-1''\<rparr>"

definition failing_world :: world where
  "failing_world =
     \<lparr>now = 0, now_after = 0,
      listConnectedAccounts = (\<lambda>_. Inl (Thrown ''Error: provider down'')),
      getTools = (\<lambda>_. Inl (Thrown ''Error: no tools'')),
      disconnect = (\<lambda>_. Some (Thrown ''Error: socket closed'')),
      authorize = (\<lambda>_. Inl (Thrown ''Error: not authorized'')),
      uuidv4 = ''uuid-2''\<rparr>"

text \<open>
  A state as the agent's \<^verbatim>\<open>tools\<close> function leaves it for two users: \<open>u1\<close> is not
  authenticated, \<open>u2\<close> is connected through the account \<open>c2\<close>.
\<close>

definition two_clients :: state where
  "two_clients =
     \<lparr>mcpClientCache =
        [(''gmail-u1-unauth'', \<lparr>client_id = ''gmail-mcp-u1-0'', server_url = ''https://a''\<rparr>),
         (''gmail-u2-c2'', \<lparr>client_id = ''gmail-mcp-u2-5'', server_url = ''https://b''\<rparr>)],
      toolsCache =
        [(''gmail-u1-unauth'', [(''GMAIL_SEND_EMAIL'', RemoteTool ''GMAIL_SEND_EMAIL'')]),
         (''gmail-u2-c2'', [(''GMAIL_SEND_EMAIL'', RemoteTool ''GMAIL_SEND_EMAIL'')])],
      authStatusCache =
        [(''auth-u1'', \<lparr>connected = False, connectionId = None, timestamp = 0\<rparr>),
         (''auth-u2'', \<lparr>connected = True, connectionId = Some ''c2'', timestamp = 5\<rparr>)],
      userSessionCache = [(''default-session'', ''u1'')],
      trace = []\<rparr>"

text \<open>A world at time 5 in which the provider reports the active Gmail connection \<open>c2\<close>.\<close>

definition connected_world :: world where
  "connected_world =
     quiet_world\<lparr>now := 5, now_after := 5,
       listConnectedAccounts :=
         (\<lambda>_. Inr [\<lparr>conn_id = ''c2'', toolkit_slug = ''gmail'', status = ''ACTIVE''\<rparr>])\<rparr>"

text \<open>
  The state the agent's \<^verbatim>\<open>tools\<close> function leaves when it runs from the initial state
  for the user \<open>u1\<close>, who has no connection.
\<close>

definition after_tools_u1 :: state where
  "after_tools_u1 =
     \<lparr>mcpClientCache =
        [(''gmail-u1-unauth'', \<lparr>client_id = ''gmail-mcp-u1-0'', server_url = MCP_SERVER\<rparr>)],
      toolsCache =
        [(''gmail-u1-unauth'', [(''GMAIL_SEND_EMAIL'', RemoteTool ''GMAIL_SEND_EMAIL'')])],
      authStatusCache =
        [(''auth-u1'', \<lparr>connected = False, connectionId = None, timestamp = 0\<rparr>)],
      userSessionCache = [],
      trace = [ListConnectedAccounts ''u1'',
               GetTools \<lparr>client_id = ''gmail-mcp-u1-0'', server_url = MCP_SERVER\<rparr>]\<rparr>"

text \<open>A provider that rejects every query of \<^verbatim>\<open>GmailAuth\<close>.\<close>

definition rejecting_provider :: "string \<Rightarrow> string \<Rightarrow> error + Connection list" where
  "rejecting_provider u c = Inl (Thrown ''Error: 401'')"

section \<open>Basic facts\<close>

lemma emit_fields [simp]:
  "mcpClientCache (emit e s) = mcpClientCache s"
  "toolsCache (emit e s) = toolsCache s"
  "authStatusCache (emit e s) = authStatusCache s"
  "userSessionCache (emit e s) = userSessionCache s"
  "trace (emit e s) = trace s @ [e]"
  by (simp_all add: emit_def)

lemma withClient_fields [simp]:
  "mcpClientCache (withClient k c s) = AList.update k c (mcpClientCache s)"
  "toolsCache (withClient k c s) = toolsCache s"
  "authStatusCache (withClient k c s) = authStatusCache s"
  "userSessionCache (withClient k c s) = userSessionCache s"
  "trace (withClient k c s) = trace s @ [GetTools c]"
  by (simp_all add: withClient_def)

lemma delete_absent: "map_of al k = None \<Longrightarrow> AList.delete k al = al"
  by (simp add: map_of_eq_None_iff)

lemma map_of_delete_same: "map_of (AList.delete k al) k = None"
  by (simp add: AList.delete_conv')


lemma map_of_update_same: "map_of (AList.update k v al) k = Some v"
  by (simp add: AList.update_conv')

text \<open>The definitions a concrete run unfolds.\<close>

lemmas run_defs =
  getCachedAuthStatus_def getCachedTools_def cleanupMCPClient_def valid_entry_def
  isCacheValid_def CACHE_TTL_def initial_def quiet_world_def failing_world_def emit_def
  Let_def truthy_def or_else_def clientFor_def show_int_def show_nat.simps digit_char_def
  authorizeTool_def clearGmailAgentCache_def two_clients_def toolsCacheKey_def

subsection \<open>What cleanupMCPClient does to each field\<close>

lemma cleanupMCPClient_mcpClientCache:
  "mcpClientCache (cleanupMCPClient w key s) = AList.delete key (mcpClientCache s)"
  by (simp add: cleanupMCPClient_def Let_def delete_absent split: option.split)

lemma cleanupMCPClient_toolsCache:
  "toolsCache (cleanupMCPClient w key s) = AList.delete key (toolsCache s)"
  by (simp add: cleanupMCPClient_def Let_def split: option.split)

lemma cleanupMCPClient_others:
  "authStatusCache (cleanupMCPClient w key s) = authStatusCache s"
  "userSessionCache (cleanupMCPClient w key s) = userSessionCache s"
  by (simp_all add: cleanupMCPClient_def Let_def split: option.split)

lemma cleanupMCPClient_trace:
  "trace (cleanupMCPClient w key s) =
     trace s @ (case map_of (mcpClientCache s) key of None \<Rightarrow> [] | Some client \<Rightarrow> disposal w client)"
  by (simp add: cleanupMCPClient_def disposal_def Let_def split: option.split)

lemmas cleanupMCPClient_fields =
  cleanupMCPClient_mcpClientCache cleanupMCPClient_toolsCache cleanupMCPClient_others
  cleanupMCPClient_trace

subsection \<open>getCachedAuthStatus: hit and miss\<close>

lemma valid_entry_fresh:
  "now w - timestamp c < CACHE_TTL \<Longrightarrow> valid_entry w (Some c) = Some c"
  by (simp add: valid_entry_def isCacheValid_def)

lemma valid_entry_stale:
  "CACHE_TTL \<le> now w - timestamp c \<Longrightarrow> valid_entry w (Some c) = None"
  by (simp add: valid_entry_def isCacheValid_def)

lemma valid_entry_absent: "valid_entry w None = None"
  by (simp add: valid_entry_def)

lemma getCachedAuthStatus_hit:
  "valid_entry w (map_of (authStatusCache s) (''auth-'' @ userId)) = Some c \<Longrightarrow>
     getCachedAuthStatus w userId s = (c, s)"
  by (simp add: getCachedAuthStatus_def)

lemma getCachedAuthStatus_miss:
  assumes "valid_entry w (map_of (authStatusCache s) (''auth-'' @ userId)) = None"
  shows "map_of (authStatusCache (snd (getCachedAuthStatus w userId s))) (''auth-'' @ userId) =
           Some (fst (getCachedAuthStatus w userId s))"
    and "timestamp (fst (getCachedAuthStatus w userId s)) = now_after w"
    and "\<exists>rest. trace (snd (getCachedAuthStatus w userId s)) =
           trace s @ ListConnectedAccounts userId # rest"
  using assms
  by (simp_all add: getCachedAuthStatus_def Let_def map_of_update_same split: sum.split)

lemma getCachedAuthStatus_miss_failed:
  assumes "valid_entry w (map_of (authStatusCache s) (''auth-'' @ userId)) = None"
    and "listConnectedAccounts w userId = Inl e"
  shows "fst (getCachedAuthStatus w userId s) =
           \<lparr>connected = False, connectionId = None, timestamp = now_after w\<rparr>"
  using assms by (simp add: getCachedAuthStatus_def Let_def)

lemma getCachedAuthStatus_miss_answered:
  assumes "valid_entry w (map_of (authStatusCache s) (''auth-'' @ userId)) = None"
    and "listConnectedAccounts w userId = Inr items"
  shows "getCachedAuthStatus w userId s =
     (freshStatus w items,
      s\<lparr>authStatusCache := AList.update (''auth-'' @ userId) (freshStatus w items) (authStatusCache s),
        trace := trace s @ [ListConnectedAccounts userId]\<rparr>)"
  using assms by (simp add: getCachedAuthStatus_def freshStatus_def Let_def emit_def)

lemma getCachedAuthStatus_miss_rejected:
  assumes "valid_entry w (map_of (authStatusCache s) (''auth-'' @ userId)) = None"
    and "listConnectedAccounts w userId = Inl e"
  shows "getCachedAuthStatus w userId s =
     (\<lparr>connected = False, connectionId = None, timestamp = now_after w\<rparr>,
      s\<lparr>authStatusCache :=
          AList.update (''auth-'' @ userId)
            \<lparr>connected = False, connectionId = None, timestamp = now_after w\<rparr> (authStatusCache s),
        trace := trace s @ [ListConnectedAccounts userId,
                            ConsoleError ''Error checking auth status:'' e]\<rparr>)"
  using assms by (simp add: getCachedAuthStatus_def Let_def emit_def)

text \<open>Hit or miss, the entry a call leaves under the key is the value it returned.\<close>

lemma getCachedAuthStatus_stored:
  "map_of (authStatusCache (snd (getCachedAuthStatus w userId s))) (''auth-'' @ userId) =
     Some (fst (getCachedAuthStatus w userId s))"
proof (cases "valid_entry w (map_of (authStatusCache s) (''auth-'' @ userId))")
  case None
  then show ?thesis by (rule getCachedAuthStatus_miss(1))
next
  case (Some c)
  then have "map_of (authStatusCache s) (''auth-'' @ userId) = Some c"
    by (auto simp: valid_entry_def split: option.splits if_splits)
  then show ?thesis
    by (simp add: getCachedAuthStatus_hit[OF Some])
qed

subsection \<open>getCachedTools: hit and miss\<close>

lemma clientFor_absent:
  "map_of (mcpClientCache s) cacheKey = None \<Longrightarrow>
     clientFor w cacheKey url userId s =
       \<lparr>client_id = ''gmail-mcp-'' @ userId @ ''-'' @ show_int (now w), server_url = url\<rparr>"
  by (simp add: clientFor_def)

lemma getCachedTools_hit:
  "map_of (toolsCache s) cacheKey = Some t \<Longrightarrow> getCachedTools w cacheKey url userId s = (t, s)"
  by (simp add: getCachedTools_def)

lemma getCachedTools_miss:
  assumes "map_of (toolsCache s) cacheKey = None"
  shows "getCachedTools w cacheKey url userId s =
     (let c = clientFor w cacheKey url userId s; s2 = withClient cacheKey c s
      in case getTools w c of
           Inr tools \<Rightarrow> (tools, s2\<lparr>toolsCache := AList.update cacheKey tools (toolsCache s2)\<rparr>)
         | Inl e \<Rightarrow>
             ([], cleanupMCPClient w cacheKey
                    (emit (ConsoleError ''Failed to load tools from MCP server:'' e) s2)))"
proof (cases "map_of (mcpClientCache s) cacheKey")
  case None
  then show ?thesis
    using assms by (simp add: getCachedTools_def clientFor_def withClient_def Let_def)
next
  case (Some c)
  then have same: "s\<lparr>mcpClientCache := AList.update cacheKey c (mcpClientCache s)\<rparr> = s"
    by (simp add: AList.update_triv)
  show ?thesis
    using assms Some
    by (simp add: getCachedTools_def clientFor_def withClient_def Let_def same split: sum.split)
qed

lemma getCachedTools_miss_fetches:
  assumes "map_of (toolsCache s) cacheKey = None"
  shows "\<exists>rest. trace (snd (getCachedTools w cacheKey url userId s)) =
           trace s @ GetTools (clientFor w cacheKey url userId s) # rest"
  by (simp add: getCachedTools_miss[OF assms] Let_def cleanupMCPClient_def
        split: sum.split option.split)

lemma getCachedTools_miss_failed:
  assumes "map_of (toolsCache s) cacheKey = None"
    and "isl (getTools w (clientFor w cacheKey url userId s))"
  shows "fst (getCachedTools w cacheKey url userId s) = []"
    and "map_of (toolsCache (snd (getCachedTools w cacheKey url userId s))) cacheKey = None"
    and "map_of (mcpClientCache (snd (getCachedTools w cacheKey url userId s))) cacheKey = None"
proof -
  from assms(2) obtain e where "getTools w (clientFor w cacheKey url userId s) = Inl e"
    by (auto simp: isl_def)
  then have eq: "getCachedTools w cacheKey url userId s =
      ([], cleanupMCPClient w cacheKey
             (emit (ConsoleError ''Failed to load tools from MCP server:'' e)
                (withClient cacheKey (clientFor w cacheKey url userId s) s)))"
    by (simp add: getCachedTools_miss[OF assms(1)] Let_def)
  show "fst (getCachedTools w cacheKey url userId s) = []"
    by (simp add: eq)
  show "map_of (toolsCache (snd (getCachedTools w cacheKey url userId s))) cacheKey = None"
    by (simp add: eq cleanupMCPClient_toolsCache map_of_delete_same)
  show "map_of (mcpClientCache (snd (getCachedTools w cacheKey url userId s))) cacheKey = None"
    by (simp add: eq cleanupMCPClient_mcpClientCache map_of_delete_same)
qed

lemma getCachedTools_miss_loaded:
  assumes "map_of (toolsCache s) cacheKey = None"
    and "\<not> isl (getTools w (clientFor w cacheKey url userId s))"
  shows "map_of (toolsCache (snd (getCachedTools w cacheKey url userId s))) cacheKey =
           Some (fst (getCachedTools w cacheKey url userId s))"
proof -
  from assms(2) obtain tools where "getTools w (clientFor w cacheKey url userId s) = Inr tools"
    by (cases "getTools w (clientFor w cacheKey url userId s)") auto
  then show ?thesis
    by (simp add: getCachedTools_miss[OF assms(1)] Let_def map_of_update_same)
qed

lemma getCachedTools_miss_answered:
  assumes "map_of (toolsCache s) cacheKey = None"
    and "getTools w (clientFor w cacheKey url userId s) = Inr tools"
  shows "getCachedTools w cacheKey url userId s =
     (tools,
      s\<lparr>mcpClientCache :=
          AList.update cacheKey (clientFor w cacheKey url userId s) (mcpClientCache s),
        toolsCache := AList.update cacheKey tools (toolsCache s),
        trace := trace s @ [GetTools (clientFor w cacheKey url userId s)]\<rparr>)"
  using assms(2) by (simp add: getCachedTools_miss[OF assms(1)] Let_def withClient_def emit_def)

lemma getCachedTools_miss_rejected:
  assumes "map_of (toolsCache s) cacheKey = None"
    and "getTools w (clientFor w cacheKey url userId s) = Inl e"
  shows "getCachedTools w cacheKey url userId s =
     ([],
      s\<lparr>mcpClientCache := AList.delete cacheKey (mcpClientCache s),
        trace := trace s @
          [GetTools (clientFor w cacheKey url userId s),
           ConsoleError ''Failed to load tools from MCP server:'' e] @
          disposal w (clientFor w cacheKey url userId s)\<rparr>)"
proof -
  let ?c = "clientFor w cacheKey url userId s"
  let ?s3 = "emit (ConsoleError ''Failed to load tools from MCP server:'' e) (withClient cacheKey ?c s)"
  have eq: "getCachedTools w cacheKey url userId s = ([], cleanupMCPClient w cacheKey ?s3)"
    using assms(2) by (simp add: getCachedTools_miss[OF assms(1)] Let_def)
  have "cleanupMCPClient w cacheKey ?s3 =
      s\<lparr>mcpClientCache := AList.delete cacheKey (mcpClientCache s),
        trace := trace s @
          [GetTools ?c, ConsoleError ''Failed to load tools from MCP server:'' e] @
          disposal w ?c\<rparr>"
    by (rule state.equality)
       (simp_all add: cleanupMCPClient_fields map_of_update_same AList.delete_update_same
          delete_absent[OF assms(1)])
  with eq show ?thesis by simp
qed

text \<open>The keys of the client map stay distinct, as the keys of a \<^verbatim>\<open>Map\<close> are.\<close>

lemma distinct_clients_preserved:
  assumes "distinct (map fst (mcpClientCache s))"
  shows "distinct (map fst (mcpClientCache (cleanupMCPClient w key s)))"
    and "distinct (map fst (mcpClientCache (snd (getCachedTools w cacheKey url userId s))))"
proof -
  show "distinct (map fst (mcpClientCache (cleanupMCPClient w key s)))"
    using assms by (simp add: cleanupMCPClient_mcpClientCache AList.distinct_delete)
  show "distinct (map fst (mcpClientCache (snd (getCachedTools w cacheKey url userId s))))"
  proof (cases "map_of (toolsCache s) cacheKey")
    case (Some t)
    then show ?thesis using assms by (simp add: getCachedTools_hit)
  next
    case None
    show ?thesis
      using assms
      by (simp add: getCachedTools_miss[OF None] Let_def cleanupMCPClient_mcpClientCache
            AList.distinct_delete AList.distinct_update split: sum.split)
  qed
qed

subsection \<open>The invalidating entry points\<close>

lemma authorizeTool_ok:
  "authorize w userId = Inr r \<Longrightarrow>
     map_of (authStatusCache (snd (authorizeTool w userId s))) (''auth-'' @ userId) = None"
  by (simp add: authorizeTool_def Let_def map_of_delete_same)

lemma clearGmailAgentCache_authStatusCache:
  "authStatusCache (clearGmailAgentCache w userId s) =
     AList.delete (''auth-'' @ userId) (authStatusCache s)"
  by (simp add: clearGmailAgentCache_def Let_def cleanupMCPClient_others)

lemma agentTools_unauthenticated_run:
  "snd (agentTools quiet_world quiet_world (Some [(''userId'', ''u1'')]) initial) = after_tools_u1"
  by (simp add: agentTools_def getUserId_def ctx_get_def mcpUrl_def after_tools_u1_def run_defs)

subsection \<open>getUserId\<close>

lemma getUserId_provided:
  "truthy (ctx_get rc ''userId'') = Some u \<Longrightarrow> getUserId w rc s = (u, s)"
  by (simp add: getUserId_def)

lemma getUserId_session:
  "truthy (ctx_get rc ''userId'') = None \<Longrightarrow>
     getUserId w rc s =
       (case map_of (userSessionCache s) (sessionOf rc) of
          Some existingUserId \<Rightarrow> (existingUserId, s)
        | None \<Rightarrow>
            (uuidv4 w,
             s\<lparr>userSessionCache := AList.update (sessionOf rc) (uuidv4 w) (userSessionCache s)\<rparr>))"
  by (simp add: getUserId_def sessionOf_def Let_def split: option.split)

lemma getUserId_keeps_session:
  assumes "map_of (userSessionCache s) sid = Some u"
  shows "map_of (userSessionCache (snd (getUserId w rc s))) sid = Some u"
proof (cases "truthy (ctx_get rc ''userId'')")
  case (Some v)
  then show ?thesis using assms by (simp add: getUserId_provided)
next
  case None
  show ?thesis
  proof (cases "map_of (userSessionCache s) (sessionOf rc)")
    case (Some v)
    then show ?thesis using assms None by (simp add: getUserId_session)
  next
    case absent: None
    with assms have "sessionOf rc \<noteq> sid" by auto
    then show ?thesis
      using assms None absent by (simp add: getUserId_session AList.update_conv')
  qed
qed

lemma getUserId_calls_keep_session:
  "map_of (userSessionCache s) sid = Some u \<Longrightarrow>
     map_of (userSessionCache (getUserId_calls calls s)) sid = Some u"
proof (induction calls arbitrary: s)
  case Nil
  then show ?case by simp
next
  case (Cons call calls)
  obtain w rc where "call = (w, rc)" by (cases call)
  with Cons show ?case
    by (simp add: getUserId_keeps_session)
qed

lemma getUserId_records_session:
  assumes "truthy (ctx_get rc ''userId'') = None"
  shows "map_of (userSessionCache (snd (getUserId w rc s))) (sessionOf rc) =
           Some (fst (getUserId w rc s))"
  by (cases "map_of (userSessionCache s) (sessionOf rc)")
     (simp_all add: getUserId_session[OF assms] map_of_update_same)

section \<open>Populating the caches\<close>

text \<open>
  C6. A first call that finds a valid entry returns it and changes nothing; one that finds
  none and gets an answer from the provider (or the MCP server) returns the value computed
  from the answer, having called the fetch function once and stored the value under the
  key. Either way the entry under the key is afterwards the value the call returned. A
  second call for the same key then returns that stored value and leaves the state as the
  first call left it, trace included: the fetch function is not invoked a second time. For
  the auth status the second call must come within the TTL of the returned entry's
  timestamp; this holds also when the first call's provider query failed. For a tool set
  the first call must have found or loaded a tool set (a failed load stores nothing), and
  then the second call is a hit at any time, whatever URL and user id it passes.
\<close>

theorem second_call_is_a_hit:
  "(map_of (authStatusCache s) (''auth-'' @ userId) = Some c \<and> now w - timestamp c < CACHE_TTL \<longrightarrow>
      getCachedAuthStatus w userId s = (c, s)) \<and>
   (valid_entry w (map_of (authStatusCache s) (''auth-'' @ userId)) = None \<and>
    listConnectedAccounts w userId = Inr items \<longrightarrow>
      getCachedAuthStatus w userId s =
        (freshStatus w items,
         s\<lparr>authStatusCache :=
             AList.update (''auth-'' @ userId) (freshStatus w items) (authStatusCache s),
           trace := trace s @ [ListConnectedAccounts userId]\<rparr>)) \<and>
   map_of (authStatusCache (snd (getCachedAuthStatus w userId s))) (''auth-'' @ userId) =
     Some (fst (getCachedAuthStatus w userId s)) \<and>
   (now w' - timestamp (fst (getCachedAuthStatus w userId s)) < CACHE_TTL \<longrightarrow>
      getCachedAuthStatus w' userId (snd (getCachedAuthStatus w userId s)) =
        getCachedAuthStatus w userId s) \<and>
   (map_of (toolsCache s) cacheKey = Some t \<longrightarrow>
      getCachedTools w cacheKey url userId s = (t, s)) \<and>
   (map_of (toolsCache s) cacheKey = None \<and>
    getTools w (clientFor w cacheKey url userId s) = Inr tools \<longrightarrow>
      getCachedTools w cacheKey url userId s =
        (tools,
         s\<lparr>mcpClientCache :=
             AList.update cacheKey (clientFor w cacheKey url userId s) (mcpClientCache s),
           toolsCache := AList.update cacheKey tools (toolsCache s),
           trace := trace s @ [GetTools (clientFor w cacheKey url userId s)]\<rparr>)) \<and>
   (map_of (toolsCache s) cacheKey \<noteq> None \<or>
    \<not> isl (getTools w (clientFor w cacheKey url userId s)) \<longrightarrow>
      map_of (toolsCache (snd (getCachedTools w cacheKey url userId s))) cacheKey =
        Some (fst (getCachedTools w cacheKey url userId s)) \<and>
      getCachedTools w' cacheKey url' userId' (snd (getCachedTools w cacheKey url userId s)) =
        getCachedTools w cacheKey url userId s)"
proof (intro conjI impI)
  assume "map_of (authStatusCache s) (''auth-'' @ userId) = Some c \<and> now w - timestamp c < CACHE_TTL"
  then have "valid_entry w (map_of (authStatusCache s) (''auth-'' @ userId)) = Some c"
    by (simp only: valid_entry_fresh)
  then show "getCachedAuthStatus w userId s = (c, s)"
    by (rule getCachedAuthStatus_hit)
next
  assume "valid_entry w (map_of (authStatusCache s) (''auth-'' @ userId)) = None \<and>
    listConnectedAccounts w userId = Inr items"
  then show "getCachedAuthStatus w userId s =
        (freshStatus w items,
         s\<lparr>authStatusCache :=
             AList.update (''auth-'' @ userId) (freshStatus w items) (authStatusCache s),
           trace := trace s @ [ListConnectedAccounts userId]\<rparr>)"
    by (simp only: getCachedAuthStatus_miss_answered)
next
  show "map_of (authStatusCache (snd (getCachedAuthStatus w userId s))) (''auth-'' @ userId) =
     Some (fst (getCachedAuthStatus w userId s))"
    by (rule getCachedAuthStatus_stored)
next
  let ?r = "getCachedAuthStatus w userId s"
  assume fresh: "now w' - timestamp (fst ?r) < CACHE_TTL"
  have "valid_entry w' (map_of (authStatusCache (snd ?r)) (''auth-'' @ userId)) = Some (fst ?r)"
    by (simp only: getCachedAuthStatus_stored valid_entry_fresh[OF fresh])
  then show "getCachedAuthStatus w' userId (snd ?r) = ?r"
    by (simp only: getCachedAuthStatus_hit prod.collapse)
next
  assume "map_of (toolsCache s) cacheKey = Some t"
  then show "getCachedTools w cacheKey url userId s = (t, s)"
    by (rule getCachedTools_hit)
next
  assume "map_of (toolsCache s) cacheKey = None \<and>
    getTools w (clientFor w cacheKey url userId s) = Inr tools"
  then show "getCachedTools w cacheKey url userId s =
        (tools,
         s\<lparr>mcpClientCache :=
             AList.update cacheKey (clientFor w cacheKey url userId s) (mcpClientCache s),
           toolsCache := AList.update cacheKey tools (toolsCache s),
           trace := trace s @ [GetTools (clientFor w cacheKey url userId s)]\<rparr>)"
    by (simp only: getCachedTools_miss_answered)
next
  let ?r = "getCachedTools w cacheKey url userId s"
  assume ok: "map_of (toolsCache s) cacheKey \<noteq> None \<or>
    \<not> isl (getTools w (clientFor w cacheKey url userId s))"
  show stored: "map_of (toolsCache (snd ?r)) cacheKey = Some (fst ?r)"
  proof (cases "map_of (toolsCache s) cacheKey")
    case None
    with ok have "\<not> isl (getTools w (clientFor w cacheKey url userId s))" by simp
    with None show ?thesis by (rule getCachedTools_miss_loaded)
  next
    case (Some t)
    then show ?thesis by (simp add: getCachedTools_hit)
  qed
  then show "getCachedTools w' cacheKey url' userId' (snd ?r) = ?r"
    by (simp add: getCachedTools_hit)
qed

text \<open>
  An instance. The provider reports the connection \<open>c2\<close> at time 5 and the status is
  asked for again at time 300004, in a world where the provider would fail. A tool set is
  loaded at time 0 and asked for again ten minutes later, in the failing world, with
  another URL and user id.
\<close>

theorem second_call_is_a_hit_witness:
  "valid_entry connected_world (map_of (authStatusCache initial) ''auth-u2'') = None \<and>
   listConnectedAccounts connected_world ''u2'' =
     Inr [\<lparr>conn_id = ''c2'', toolkit_slug = ''gmail'', status = ''ACTIVE''\<rparr>] \<and>
   getCachedAuthStatus connected_world ''u2'' initial =
     (\<lparr>connected = True, connectionId = Some ''c2'', timestamp = 5\<rparr>,
      initial\<lparr>authStatusCache :=
          [(''auth-u2'', \<lparr>connected = True, connectionId = Some ''c2'', timestamp = 5\<rparr>)],
        trace := [ListConnectedAccounts ''u2'']\<rparr>) \<and>
   now (failing_world\<lparr>now := 300004\<rparr>) - 5 < CACHE_TTL \<and>
   getCachedAuthStatus (failing_world\<lparr>now := 300004\<rparr>) ''u2''
       (snd (getCachedAuthStatus connected_world ''u2'' initial)) =
     (\<lparr>connected = True, connectionId = Some ''c2'', timestamp = 5\<rparr>,
      initial\<lparr>authStatusCache :=
          [(''auth-u2'', \<lparr>connected = True, connectionId = Some ''c2'', timestamp = 5\<rparr>)],
        trace := [ListConnectedAccounts ''u2'']\<rparr>) \<and>
   map_of (authStatusCache
             (initial\<lparr>authStatusCache :=
                 [(''auth-u2'', \<lparr>connected = True, connectionId = Some ''c2'', timestamp = 5\<rparr>)],
               trace := [ListConnectedAccounts ''u2'']\<rparr>)) ''auth-u2'' =
     Some \<lparr>connected = True, connectionId = Some ''c2'', timestamp = 5\<rparr> \<and>
   getCachedAuthStatus (failing_world\<lparr>now := 300004\<rparr>) ''u2''
       (initial\<lparr>authStatusCache :=
           [(''auth-u2'', \<lparr>connected = True, connectionId = Some ''c2'', timestamp = 5\<rparr>)],
         trace := [ListConnectedAccounts ''u2'']\<rparr>) =
     (\<lparr>connected = True, connectionId = Some ''c2'', timestamp = 5\<rparr>,
      initial\<lparr>authStatusCache :=
          [(''auth-u2'', \<lparr>connected = True, connectionId = Some ''c2'', timestamp = 5\<rparr>)],
        trace := [ListConnectedAccounts ''u2'']\<rparr>) \<and>
   map_of (toolsCache initial) ''gmail-u1-unauth'' = None \<and>
   getTools quiet_world (clientFor quiet_world ''gmail-u1-unauth'' ''https://a'' ''u1'' initial) =
     Inr [(''GMAIL_SEND_EMAIL'', RemoteTool ''GMAIL_SEND_EMAIL'')] \<and>
   getCachedTools quiet_world ''gmail-u1-unauth'' ''https://a'' ''u1'' initial =
     ([(''GMAIL_SEND_EMAIL'', RemoteTool ''GMAIL_SEND_EMAIL'')],
      initial\<lparr>mcpClientCache :=
          [(''gmail-u1-unauth'', \<lparr>client_id = ''gmail-mcp-u1-0'', server_url = ''https://a''\<rparr>)],
        toolsCache :=
          [(''gmail-u1-unauth'', [(''GMAIL_SEND_EMAIL'', RemoteTool ''GMAIL_SEND_EMAIL'')])],
        trace := [GetTools \<lparr>client_id = ''gmail-mcp-u1-0'', server_url = ''https://a''\<rparr>]\<rparr>) \<and>
   getCachedTools (failing_world\<lparr>now := 600000\<rparr>) ''gmail-u1-unauth'' ''https://b'' ''u9''
       (snd (getCachedTools quiet_world ''gmail-u1-unauth'' ''https://a'' ''u1'' initial)) =
     ([(''GMAIL_SEND_EMAIL'', RemoteTool ''GMAIL_SEND_EMAIL'')],
      initial\<lparr>mcpClientCache :=
          [(''gmail-u1-unauth'', \<lparr>client_id = ''gmail-mcp-u1-0'', server_url = ''https://a''\<rparr>)],
        toolsCache :=
          [(''gmail-u1-unauth'', [(''GMAIL_SEND_EMAIL'', RemoteTool ''GMAIL_SEND_EMAIL'')])],
        trace := [GetTools \<lparr>client_id = ''gmail-mcp-u1-0'', server_url = ''https://a''\<rparr>]\<rparr>) \<and>
   map_of (toolsCache after_tools_u1) ''gmail-u1-unauth'' =
     Some [(''GMAIL_SEND_EMAIL'', RemoteTool ''GMAIL_SEND_EMAIL'')] \<and>
   getCachedTools (failing_world\<lparr>now := 600000\<rparr>) ''gmail-u1-unauth'' ''https://b'' ''u9''
       after_tools_u1 =
     ([(''GMAIL_SEND_EMAIL'', RemoteTool ''GMAIL_SEND_EMAIL'')], after_tools_u1)"
proof -
  let ?conn = "\<lparr>conn_id = ''c2'', toolkit_slug = ''gmail'', status = ''ACTIVE''\<rparr>"
  let ?a = "\<lparr>connected = True, connectionId = Some ''c2'', timestamp = 5\<rparr>"
  let ?s1 = "initial\<lparr>authStatusCache := [(''auth-u2'', ?a)],
               trace := [ListConnectedAccounts ''u2'']\<rparr>"
  let ?late = "failing_world\<lparr>now := 300004\<rparr>"
  let ?later = "failing_world\<lparr>now := 600000\<rparr>"
  let ?k = "''gmail-u1-unauth''"
  let ?t = "[(''GMAIL_SEND_EMAIL'', RemoteTool ''GMAIL_SEND_EMAIL'')]"
  let ?c = "\<lparr>client_id = ''gmail-mcp-u1-0'', server_url = ''https://a''\<rparr>"
  let ?s2 = "initial\<lparr>mcpClientCache := [(?k, ?c)], toolsCache := [(?k, ?t)],
               trace := [GetTools ?c]\<rparr>"
  note first =
    second_call_is_a_hit
      [where w = connected_world and userId = "''u2''" and s = initial and items = "[?conn]"
         and w' = ?late]
  note again =
    second_call_is_a_hit [where w = ?late and userId = "''u2''" and s = ?s1 and c = ?a]
  note tools_first =
    second_call_is_a_hit
      [where w = quiet_world and userId = "''u1''" and s = initial and cacheKey = ?k
         and url = "''https://a''" and tools = ?t and w' = ?later and url' = "''https://b''"
         and userId' = "''u9''"]
  note tools_again =
    second_call_is_a_hit
      [where w = ?later and userId = "''u9''" and s = after_tools_u1 and cacheKey = ?k
         and url = "''https://b''" and t = ?t]
  have h1: "valid_entry connected_world (map_of (authStatusCache initial) (''auth-'' @ ''u2'')) = None"
    by (simp add: initial_def valid_entry_def)
  have h2: "listConnectedAccounts connected_world ''u2'' = Inr [?conn]"
    by (simp add: connected_world_def)
  have "getCachedAuthStatus connected_world ''u2'' initial =
      (freshStatus connected_world [?conn],
       initial\<lparr>authStatusCache :=
           AList.update (''auth-'' @ ''u2'') (freshStatus connected_world [?conn])
             (authStatusCache initial),
         trace := trace initial @ [ListConnectedAccounts ''u2'']\<rparr>)"
    using first h1 h2 by blast
  then have c1: "getCachedAuthStatus connected_world ''u2'' initial = (?a, ?s1)"
    by (simp add: freshStatus_def connected_world_def quiet_world_def truthy_def initial_def)
  have h3: "now ?late - 5 < CACHE_TTL"
    by (simp add: CACHE_TTL_def)
  then have "now ?late - timestamp (fst (getCachedAuthStatus connected_world ''u2'' initial)) < CACHE_TTL"
    by (simp add: c1)
  with first have "getCachedAuthStatus ?late ''u2'' (snd (getCachedAuthStatus connected_world ''u2'' initial)) =
      getCachedAuthStatus connected_world ''u2'' initial"
    by blast
  then have c2: "getCachedAuthStatus ?late ''u2''
      (snd (getCachedAuthStatus connected_world ''u2'' initial)) = (?a, ?s1)"
    by (simp add: c1)
  have h4: "map_of (authStatusCache ?s1) (''auth-'' @ ''u2'') = Some ?a"
    by simp
  have h5: "now ?late - timestamp ?a < CACHE_TTL"
    using h3 by simp
  have c3: "getCachedAuthStatus ?late ''u2'' ?s1 = (?a, ?s1)"
    using again h4 h5 by blast
  have h6: "map_of (toolsCache initial) ?k = None"
    by (simp add: initial_def)
  have h7: "getTools quiet_world (clientFor quiet_world ?k ''https://a'' ''u1'' initial) = Inr ?t"
    by (simp add: quiet_world_def)
  have "getCachedTools quiet_world ?k ''https://a'' ''u1'' initial =
      (?t,
       initial\<lparr>mcpClientCache :=
           AList.update ?k (clientFor quiet_world ?k ''https://a'' ''u1'' initial)
             (mcpClientCache initial),
         toolsCache := AList.update ?k ?t (toolsCache initial),
         trace := trace initial @ [GetTools (clientFor quiet_world ?k ''https://a'' ''u1'' initial)]\<rparr>)"
    using tools_first h6 h7 by blast
  then have c4: "getCachedTools quiet_world ?k ''https://a'' ''u1'' initial = (?t, ?s2)"
    by (simp add: run_defs)
  have "\<not> isl (getTools quiet_world (clientFor quiet_world ?k ''https://a'' ''u1'' initial))"
    by (simp add: h7)
  with tools_first
  have "getCachedTools ?later ?k ''https://b'' ''u9''
      (snd (getCachedTools quiet_world ?k ''https://a'' ''u1'' initial)) =
      getCachedTools quiet_world ?k ''https://a'' ''u1'' initial"
    by blast
  then have c5: "getCachedTools ?later ?k ''https://b'' ''u9''
      (snd (getCachedTools quiet_world ?k ''https://a'' ''u1'' initial)) = (?t, ?s2)"
    by (simp add: c4)
  have h8: "map_of (toolsCache after_tools_u1) ?k = Some ?t"
    by (simp add: after_tools_u1_def)
  have c6: "getCachedTools ?later ?k ''https://b'' ''u9'' after_tools_u1 = (?t, after_tools_u1)"
    using tools_again h8 by blast
  have h1': "valid_entry connected_world (map_of (authStatusCache initial) ''auth-u2'') = None"
    using h1 by simp
  have h4': "map_of (authStatusCache ?s1) ''auth-u2'' = Some ?a"
    by simp
  show ?thesis
    by (intro conjI) (fact h1' h2 c1 h3 c2 h4' c3 h6 h7 c4 c5 h8 c6)+
qed

text \<open>
  Expiry of the auth status. An entry whose age \<open>now - timestamp\<close> has reached
  \<^const>\<open>CACHE_TTL\<close> (5 minutes) is not returned: the call queries the provider, and the
  entry under the key is then the value it returns, stamped with the time after the query.
\<close>

lemma stale_auth_entry_refetched:
  assumes "map_of (authStatusCache s) (''auth-'' @ userId) = Some c"
    and "CACHE_TTL \<le> now w - timestamp c"
  shows "\<exists>rest. trace (snd (getCachedAuthStatus w userId s)) =
           trace s @ ListConnectedAccounts userId # rest"
    and "map_of (authStatusCache (snd (getCachedAuthStatus w userId s))) (''auth-'' @ userId) =
           Some (fst (getCachedAuthStatus w userId s))"
    and "timestamp (fst (getCachedAuthStatus w userId s)) = now_after w"
proof -
  from assms have miss: "valid_entry w (map_of (authStatusCache s) (''auth-'' @ userId)) = None"
    by (simp only: valid_entry_stale)
  show "\<exists>rest. trace (snd (getCachedAuthStatus w userId s)) =
         trace s @ ListConnectedAccounts userId # rest"
    using miss by (rule getCachedAuthStatus_miss(3))
  show "map_of (authStatusCache (snd (getCachedAuthStatus w userId s))) (''auth-'' @ userId) =
        Some (fst (getCachedAuthStatus w userId s))"
    using miss by (rule getCachedAuthStatus_miss(1))
  show "timestamp (fst (getCachedAuthStatus w userId s)) = now_after w"
    using miss by (rule getCachedAuthStatus_miss(2))
qed

text \<open>
  At the boundary: the entry of \<open>u1\<close>, stamped 0, read when the clock shows exactly 300000.
\<close>

lemma stale_auth_entry_refetched_at_ttl:
  "getCachedAuthStatus (quiet_world\<lparr>now := 300000, now_after := 300002\<rparr>) ''u1'' two_clients =
     (\<lparr>connected = False, connectionId = None, timestamp = 300002\<rparr>,
      two_clients\<lparr>authStatusCache :=
          [(''auth-u1'', \<lparr>connected = False, connectionId = None, timestamp = 300002\<rparr>),
           (''auth-u2'', \<lparr>connected = True, connectionId = Some ''c2'', timestamp = 5\<rparr>)],
        trace := [ListConnectedAccounts ''u1'']\<rparr>)"
  by (simp add: run_defs)

text \<open>
  C2. The auth status expires as the claim says (the two lemmas above). Tool sets do not,
  although the repository's README lists a ``Tool cache (5 minutes)'' beside the
  ``Auth status cache (5 minutes)'' and the comment in \<^verbatim>\<open>getCachedTools\<close> speaks of
  valid cached tools: the tool map stores no timestamp and the function tests only
  \<^verbatim>\<open>toolsCache.has(cacheKey)\<close>. Here a tool set is loaded at time 0 and asked for
  again at time 600000, twice the TTL later: the call returns the old entry and leaves the
  state as it was, so \<^verbatim>\<open>getTools\<close> is not invoked again and nothing is overwritten.
\<close>

theorem getCachedTools_ignores_ttl:
  "CACHE_TTL \<le> now (quiet_world\<lparr>now := 600000\<rparr>) - now quiet_world \<and>
   getCachedTools quiet_world ''gmail-u1-unauth'' ''https://a'' ''u1'' initial =
     ([(''GMAIL_SEND_EMAIL'', RemoteTool ''GMAIL_SEND_EMAIL'')],
      \<lparr>mcpClientCache =
         [(''gmail-u1-unauth'', \<lparr>client_id = ''gmail-mcp-u1-0'', server_url = ''https://a''\<rparr>)],
       toolsCache =
         [(''gmail-u1-unauth'', [(''GMAIL_SEND_EMAIL'', RemoteTool ''GMAIL_SEND_EMAIL'')])],
       authStatusCache = [], userSessionCache = [],
       trace = [GetTools \<lparr>client_id = ''gmail-mcp-u1-0'', server_url = ''https://a''\<rparr>]\<rparr>) \<and>
   getCachedTools (quiet_world\<lparr>now := 600000\<rparr>) ''gmail-u1-unauth'' ''https://a'' ''u1''
       (snd (getCachedTools quiet_world ''gmail-u1-unauth'' ''https://a'' ''u1'' initial)) =
     getCachedTools quiet_world ''gmail-u1-unauth'' ''https://a'' ''u1'' initial"
  by (simp add: run_defs)

text \<open>
  C1, as amended. A failed fetch is not raised to the caller by either function.

  When there is no valid auth-status entry and the provider query fails,
  \<^const>\<open>getCachedAuthStatus\<close> reports the error with \<^verbatim>\<open>console.error\<close>, returns the
  negative status \<open>connected = False, connectionId = None\<close> and stores it under the key
  with a fresh timestamp, changing nothing else; a call within the TTL of that timestamp
  returns the stored status and does not query the provider.

  When there is no tool set under the key and \<^verbatim>\<open>getTools\<close> fails,
  \<^const>\<open>getCachedTools\<close> reports the error with \<^verbatim>\<open>console.error\<close>, disposes the client
  handle it loaded from and returns the empty tool set. It leaves neither a tool set nor a
  client handle under the key and changes no other entry, so the next call creates a client
  and invokes \<^verbatim>\<open>getTools\<close> again.
\<close>

theorem failed_fetch_outcome:
  "(valid_entry w (map_of (authStatusCache s) (''auth-'' @ userId)) = None \<and>
    listConnectedAccounts w userId = Inl e \<longrightarrow>
      getCachedAuthStatus w userId s =
        (\<lparr>connected = False, connectionId = None, timestamp = now_after w\<rparr>,
         s\<lparr>authStatusCache :=
             AList.update (''auth-'' @ userId)
               \<lparr>connected = False, connectionId = None, timestamp = now_after w\<rparr>
               (authStatusCache s),
           trace := trace s @ [ListConnectedAccounts userId,
                               ConsoleError ''Error checking auth status:'' e]\<rparr>) \<and>
      map_of (authStatusCache (snd (getCachedAuthStatus w userId s))) (''auth-'' @ userId) =
        Some \<lparr>connected = False, connectionId = None, timestamp = now_after w\<rparr> \<and>
      (now w' - now_after w < CACHE_TTL \<longrightarrow>
         getCachedAuthStatus w' userId (snd (getCachedAuthStatus w userId s)) =
           getCachedAuthStatus w userId s)) \<and>
   (map_of (toolsCache s) cacheKey = None \<and>
    getTools w (clientFor w cacheKey url userId s) = Inl e' \<longrightarrow>
      getCachedTools w cacheKey url userId s =
        ([],
         s\<lparr>mcpClientCache := AList.delete cacheKey (mcpClientCache s),
           trace := trace s @
             [GetTools (clientFor w cacheKey url userId s),
              ConsoleError ''Failed to load tools from MCP server:'' e'] @
             disposal w (clientFor w cacheKey url userId s)\<rparr>) \<and>
      map_of (toolsCache (snd (getCachedTools w cacheKey url userId s))) cacheKey = None \<and>
      map_of (mcpClientCache (snd (getCachedTools w cacheKey url userId s))) cacheKey = None \<and>
      (\<exists>rest. trace (snd (getCachedTools w' cacheKey url' userId'
                              (snd (getCachedTools w cacheKey url userId s)))) =
         trace (snd (getCachedTools w cacheKey url userId s)) @
           GetTools \<lparr>client_id = ''gmail-mcp-'' @ userId' @ ''-'' @ show_int (now w'),
                     server_url = url'\<rparr> # rest))"
proof (intro conjI impI)
  let ?r = "getCachedAuthStatus w userId s"
  let ?neg = "\<lparr>connected = False, connectionId = None, timestamp = now_after w\<rparr>"
  assume a: "valid_entry w (map_of (authStatusCache s) (''auth-'' @ userId)) = None \<and>
    listConnectedAccounts w userId = Inl e"
  then show run: "?r =
        (?neg,
         s\<lparr>authStatusCache := AList.update (''auth-'' @ userId) ?neg (authStatusCache s),
           trace := trace s @ [ListConnectedAccounts userId,
                               ConsoleError ''Error checking auth status:'' e]\<rparr>)"
    by (simp only: getCachedAuthStatus_miss_rejected)
  from a have val: "fst ?r = ?neg"
    by (simp only: getCachedAuthStatus_miss_failed)
  from a show stored: "map_of (authStatusCache (snd ?r)) (''auth-'' @ userId) = Some ?neg"
    by (simp only: getCachedAuthStatus_miss(1) val)
  assume "now w' - now_after w < CACHE_TTL"
  then have "valid_entry w' (Some ?neg) = Some ?neg"
    by (simp add: valid_entry_fresh)
  then have "valid_entry w' (map_of (authStatusCache (snd ?r)) (''auth-'' @ userId)) = Some (fst ?r)"
    by (simp only: stored val)
  then show "getCachedAuthStatus w' userId (snd ?r) = ?r"
    by (simp only: getCachedAuthStatus_hit prod.collapse)
next
  let ?r = "getCachedTools w cacheKey url userId s"
  assume a: "map_of (toolsCache s) cacheKey = None \<and>
    getTools w (clientFor w cacheKey url userId s) = Inl e'"
  then have miss: "map_of (toolsCache s) cacheKey = None"
    and rejected: "getTools w (clientFor w cacheKey url userId s) = Inl e'"
    by simp_all
  from rejected have failed: "isl (getTools w (clientFor w cacheKey url userId s))"
    by simp
  show "?r =
        ([],
         s\<lparr>mcpClientCache := AList.delete cacheKey (mcpClientCache s),
           trace := trace s @
             [GetTools (clientFor w cacheKey url userId s),
              ConsoleError ''Failed to load tools from MCP server:'' e'] @
             disposal w (clientFor w cacheKey url userId s)\<rparr>)"
    using miss rejected by (rule getCachedTools_miss_rejected)
  show tools: "map_of (toolsCache (snd ?r)) cacheKey = None"
    using miss failed by (rule getCachedTools_miss_failed(2))
  show client: "map_of (mcpClientCache (snd ?r)) cacheKey = None"
    using miss failed by (rule getCachedTools_miss_failed(3))
  have "clientFor w' cacheKey url' userId' (snd ?r) =
      \<lparr>client_id = ''gmail-mcp-'' @ userId' @ ''-'' @ show_int (now w'), server_url = url'\<rparr>"
    using client by (rule clientFor_absent)
  with getCachedTools_miss_fetches[OF tools, of w' url' userId']
  show "\<exists>rest. trace (snd (getCachedTools w' cacheKey url' userId' (snd ?r))) =
         trace (snd ?r) @
           GetTools \<lparr>client_id = ''gmail-mcp-'' @ userId' @ ''-'' @ show_int (now w'),
                     server_url = url'\<rparr> # rest"
    by simp
qed

text \<open>
  An instance: both caches start empty, the provider and the MCP server fail, and the next
  call comes 1 ms later, in a world where every call succeeds.
\<close>

theorem failed_fetch_outcome_witness:
  "valid_entry failing_world (map_of (authStatusCache initial) ''auth-u1'') = None \<and>
   listConnectedAccounts failing_world ''u1'' = Inl (Thrown ''Error: provider down'') \<and>
   getCachedAuthStatus failing_world ''u1'' initial =
     (\<lparr>connected = False, connectionId = None, timestamp = 0\<rparr>,
      initial\<lparr>authStatusCache :=
          [(''auth-u1'', \<lparr>connected = False, connectionId = None, timestamp = 0\<rparr>)],
        trace := [ListConnectedAccounts ''u1'',
                  ConsoleError ''Error checking auth status:'' (Thrown ''Error: provider down'')]\<rparr>) \<and>
   now (quiet_world\<lparr>now := 1\<rparr>) - now_after failing_world < CACHE_TTL \<and>
   getCachedAuthStatus (quiet_world\<lparr>now := 1\<rparr>) ''u1''
       (snd (getCachedAuthStatus failing_world ''u1'' initial)) =
     getCachedAuthStatus failing_world ''u1'' initial \<and>
   map_of (toolsCache initial) ''gmail-u1-unauth'' = None \<and>
   getTools failing_world
       (clientFor failing_world ''gmail-u1-unauth'' ''https://a'' ''u1'' initial) =
     Inl (Thrown ''Error: no tools'') \<and>
   getCachedTools failing_world ''gmail-u1-unauth'' ''https://a'' ''u1'' initial =
     ([],
      initial\<lparr>trace :=
        [GetTools \<lparr>client_id = ''gmail-mcp-u1-0'', server_url = ''https://a''\<rparr>,
         ConsoleError ''Failed to load tools from MCP server:'' (Thrown ''Error: no tools''),
         Disconnect \<lparr>client_id = ''gmail-mcp-u1-0'', server_url = ''https://a''\<rparr>,
         ConsoleError ''Error disconnecting MCP client:'' (Thrown ''Error: socket closed'')]\<rparr>) \<and>
   trace (snd (getCachedTools (quiet_world\<lparr>now := 1\<rparr>) ''gmail-u1-unauth'' ''https://a'' ''u1''
                 (snd (getCachedTools failing_world ''gmail-u1-unauth'' ''https://a'' ''u1''
                         initial)))) =
     [GetTools \<lparr>client_id = ''gmail-mcp-u1-0'', server_url = ''https://a''\<rparr>,
      ConsoleError ''Failed to load tools from MCP server:'' (Thrown ''Error: no tools''),
      Disconnect \<lparr>client_id = ''gmail-mcp-u1-0'', server_url = ''https://a''\<rparr>,
      ConsoleError ''Error disconnecting MCP client:'' (Thrown ''Error: socket closed''),
      GetTools \<lparr>client_id = ''gmail-mcp-u1-1'', server_url = ''https://a''\<rparr>]"
proof -
  let ?k = "''gmail-u1-unauth''"
  let ?later = "quiet_world\<lparr>now := 1\<rparr>"
  let ?neg = "\<lparr>connected = False, connectionId = None, timestamp = 0\<rparr>"
  let ?c = "\<lparr>client_id = ''gmail-mcp-u1-0'', server_url = ''https://a''\<rparr>"
  note inst =
    failed_fetch_outcome
      [where w = failing_world and w' = ?later and userId = "''u1''" and s = initial
         and e = "Thrown ''Error: provider down''" and cacheKey = ?k and url = "''https://a''"
         and e' = "Thrown ''Error: no tools''" and url' = "''https://a''" and userId' = "''u1''"]
  have h1: "valid_entry failing_world (map_of (authStatusCache initial) (''auth-'' @ ''u1'')) = None"
    by (simp add: initial_def valid_entry_def)
  have h2: "listConnectedAccounts failing_world ''u1'' = Inl (Thrown ''Error: provider down'')"
    by (simp add: failing_world_def)
  have h3: "now ?later - now_after failing_world < CACHE_TTL"
    by (simp add: failing_world_def CACHE_TTL_def)
  have h4: "map_of (toolsCache initial) ?k = None"
    by (simp add: initial_def)
  have h5: "getTools failing_world (clientFor failing_world ?k ''https://a'' ''u1'' initial) =
      Inl (Thrown ''Error: no tools'')"
    by (simp add: failing_world_def)
  have "getCachedAuthStatus failing_world ''u1'' initial =
      (\<lparr>connected = False, connectionId = None, timestamp = now_after failing_world\<rparr>,
       initial\<lparr>authStatusCache :=
           AList.update (''auth-'' @ ''u1'')
             \<lparr>connected = False, connectionId = None, timestamp = now_after failing_world\<rparr>
             (authStatusCache initial),
         trace := trace initial @
           [ListConnectedAccounts ''u1'',
            ConsoleError ''Error checking auth status:'' (Thrown ''Error: provider down'')]\<rparr>)"
    using inst h1 h2 by blast
  then have c1: "getCachedAuthStatus failing_world ''u1'' initial =
      (?neg,
       initial\<lparr>authStatusCache := [(''auth-u1'', ?neg)],
         trace := [ListConnectedAccounts ''u1'',
                   ConsoleError ''Error checking auth status:'' (Thrown ''Error: provider down'')]\<rparr>)"
    by (simp add: failing_world_def initial_def)
  have c2: "getCachedAuthStatus ?later ''u1'' (snd (getCachedAuthStatus failing_world ''u1'' initial)) =
      getCachedAuthStatus failing_world ''u1'' initial"
    using inst h1 h2 h3 by blast
  have "getCachedTools failing_world ?k ''https://a'' ''u1'' initial =
      ([],
       initial\<lparr>mcpClientCache := AList.delete ?k (mcpClientCache initial),
         trace := trace initial @
           [GetTools (clientFor failing_world ?k ''https://a'' ''u1'' initial),
            ConsoleError ''Failed to load tools from MCP server:'' (Thrown ''Error: no tools'')] @
           disposal failing_world (clientFor failing_world ?k ''https://a'' ''u1'' initial)\<rparr>)"
    using inst h4 h5 by blast
  then have c3: "getCachedTools failing_world ?k ''https://a'' ''u1'' initial =
      ([],
       initial\<lparr>trace :=
         [GetTools ?c,
          ConsoleError ''Failed to load tools from MCP server:'' (Thrown ''Error: no tools''),
          Disconnect ?c,
          ConsoleError ''Error disconnecting MCP client:'' (Thrown ''Error: socket closed'')]\<rparr>)"
    by (simp add: disposal_def run_defs)
  have "\<exists>rest. trace (snd (getCachedTools ?later ?k ''https://a'' ''u1''
                              (snd (getCachedTools failing_world ?k ''https://a'' ''u1'' initial)))) =
         trace (snd (getCachedTools failing_world ?k ''https://a'' ''u1'' initial)) @
           GetTools \<lparr>client_id = ''gmail-mcp-'' @ ''u1'' @ ''-'' @ show_int (now ?later),
                     server_url = ''https://a''\<rparr> # rest"
    using inst h4 h5 by blast
  then have c4: "trace (snd (getCachedTools ?later ?k ''https://a'' ''u1''
                 (snd (getCachedTools failing_world ?k ''https://a'' ''u1'' initial)))) =
     [GetTools ?c,
      ConsoleError ''Failed to load tools from MCP server:'' (Thrown ''Error: no tools''),
      Disconnect ?c,
      ConsoleError ''Error disconnecting MCP client:'' (Thrown ''Error: socket closed''),
      GetTools \<lparr>client_id = ''gmail-mcp-u1-1'', server_url = ''https://a''\<rparr>]"
    by (simp add: c3 run_defs)
  have h1': "valid_entry failing_world (map_of (authStatusCache initial) ''auth-u1'') = None"
    using h1 by simp
  show ?thesis
    by (intro conjI) (fact h1' h2 c1 h3 c2 h4 h5 c3 c4)+
qed

text \<open>
  The claim fails for the auth status. With an empty cache and a failing provider the call
  returns a value, stores it under \<open>auth-u1\<close>, and the call 1 ms later, in a world where
  the provider would answer, returns the memoized failure and leaves the trace with its one
  provider query.
\<close>

theorem memoized_failure_counterexample:
  "isl (listConnectedAccounts failing_world ''u1'') \<and>
   getCachedAuthStatus failing_world ''u1'' initial =
     (\<lparr>connected = False, connectionId = None, timestamp = 0\<rparr>,
      \<lparr>mcpClientCache = [], toolsCache = [],
       authStatusCache =
         [(''auth-u1'', \<lparr>connected = False, connectionId = None, timestamp = 0\<rparr>)],
       userSessionCache = [],
       trace = [ListConnectedAccounts ''u1'',
                ConsoleError ''Error checking auth status:'' (Thrown ''Error: provider down'')]\<rparr>) \<and>
   getCachedAuthStatus (quiet_world\<lparr>now := 1\<rparr>) ''u1''
       (snd (getCachedAuthStatus failing_world ''u1'' initial)) =
     getCachedAuthStatus failing_world ''u1'' initial"
  by (simp add: run_defs)

text \<open>
  C8. After an invalidation the next call fetches, whatever the clock shows. Once the
  authorization tool has succeeded, and once \<^const>\<open>clearGmailAgentCache\<close> has run, the
  next \<^const>\<open>getCachedAuthStatus\<close> for the user queries the provider. Once
  \<^const>\<open>cleanupMCPClient\<close> has run on a key, the next \<^const>\<open>getCachedTools\<close> for the
  key creates a client and calls \<^verbatim>\<open>getTools\<close> on it.
\<close>

theorem fetch_after_invalidate:
  "(\<not> isl (authorize w userId) \<longrightarrow>
      (\<exists>rest. trace (snd (getCachedAuthStatus w' userId (snd (authorizeTool w userId s)))) =
         trace (snd (authorizeTool w userId s)) @ ListConnectedAccounts userId # rest)) \<and>
   (\<exists>rest. trace (snd (getCachedAuthStatus w' userId (clearGmailAgentCache w userId s))) =
      trace (clearGmailAgentCache w userId s) @ ListConnectedAccounts userId # rest) \<and>
   (\<exists>rest. trace (snd (getCachedTools w' key url userId (cleanupMCPClient w key s))) =
      trace (cleanupMCPClient w key s) @
        GetTools \<lparr>client_id = ''gmail-mcp-'' @ userId @ ''-'' @ show_int (now w'),
                  server_url = url\<rparr> # rest)"
proof (intro conjI impI)
  assume "\<not> isl (authorize w userId)"
  then obtain r where "authorize w userId = Inr r"
    by (cases "authorize w userId") auto
  then have "map_of (authStatusCache (snd (authorizeTool w userId s))) (''auth-'' @ userId) = None"
    by (rule authorizeTool_ok)
  then have "valid_entry w'
      (map_of (authStatusCache (snd (authorizeTool w userId s))) (''auth-'' @ userId)) = None"
    by (simp only: valid_entry_absent)
  then show "\<exists>rest. trace (snd (getCachedAuthStatus w' userId (snd (authorizeTool w userId s)))) =
         trace (snd (authorizeTool w userId s)) @ ListConnectedAccounts userId # rest"
    by (rule getCachedAuthStatus_miss(3))
next
  have "valid_entry w'
      (map_of (authStatusCache (clearGmailAgentCache w userId s)) (''auth-'' @ userId)) = None"
    by (simp only: clearGmailAgentCache_authStatusCache map_of_delete_same valid_entry_absent)
  then show "\<exists>rest. trace (snd (getCachedAuthStatus w' userId (clearGmailAgentCache w userId s))) =
      trace (clearGmailAgentCache w userId s) @ ListConnectedAccounts userId # rest"
    by (rule getCachedAuthStatus_miss(3))
next
  let ?s1 = "cleanupMCPClient w key s"
  have tools: "map_of (toolsCache ?s1) key = None"
    by (simp add: cleanupMCPClient_toolsCache map_of_delete_same)
  have "map_of (mcpClientCache ?s1) key = None"
    by (simp add: cleanupMCPClient_mcpClientCache map_of_delete_same)
  then have "clientFor w' key url userId ?s1 =
      \<lparr>client_id = ''gmail-mcp-'' @ userId @ ''-'' @ show_int (now w'), server_url = url\<rparr>"
    by (rule clientFor_absent)
  with getCachedTools_miss_fetches[OF tools, of w' url userId]
  show "\<exists>rest. trace (snd (getCachedTools w' key url userId ?s1)) =
      trace ?s1 @
        GetTools \<lparr>client_id = ''gmail-mcp-'' @ userId @ ''-'' @ show_int (now w'),
                  server_url = url\<rparr> # rest"
    by simp
qed

text \<open>
  An instance: \<open>u1\<close> has an auth-status entry stamped 0 and a tool set. One millisecond
  later, well inside the TTL, the entry is invalidated by the authorization tool and the
  tool set by \<^const>\<open>cleanupMCPClient\<close>; the next reads fetch.
\<close>

theorem fetch_after_invalidate_witness:
  "\<not> isl (authorize quiet_world ''u1'') \<and>
   isCacheValid (quiet_world\<lparr>now := 1\<rparr>) 0 \<and>
   trace (snd (getCachedAuthStatus (quiet_world\<lparr>now := 1\<rparr>) ''u1''
                 (snd (authorizeTool quiet_world ''u1'' two_clients)))) =
     [Authorize ''u1'', ListConnectedAccounts ''u1''] \<and>
   trace (snd (getCachedTools (quiet_world\<lparr>now := 1\<rparr>) ''gmail-u1-unauth'' ''https://a'' ''u1''
                 (cleanupMCPClient quiet_world ''gmail-u1-unauth'' two_clients))) =
     [Disconnect \<lparr>client_id = ''gmail-mcp-u1-0'', server_url = ''https://a''\<rparr>,
      GetTools \<lparr>client_id = ''gmail-mcp-u1-1'', server_url = ''https://a''\<rparr>]"
proof -
  have h: "\<not> isl (authorize quiet_world ''u1'')"
    by (simp add: quiet_world_def)
  from fetch_after_invalidate
         [where w = quiet_world and w' = "quiet_world\<lparr>now := 1\<rparr>" and userId = "''u1''"
            and s = two_clients and key = "''gmail-u1-unauth''" and url = "''https://a''"]
       h
  show ?thesis by (simp add: run_defs)
qed

section \<open>Invalidating a client handle\<close>

text \<open>
  C4. For every key, \<^const>\<open>cleanupMCPClient\<close> leaves neither a client handle nor a tool
  set under the key: the client map and the tool map are the old ones with the key deleted.
  When a handle was present it is disconnected first, and a rejected disconnect is reported
  with \<^verbatim>\<open>console.error\<close> and changes nothing else: the outcome of \<open>disconnect w\<close> shows
  only in the trace.
\<close>

theorem cleanupMCPClient_removes_both:
  "map_of (mcpClientCache (cleanupMCPClient w key s)) key = None \<and>
   map_of (toolsCache (cleanupMCPClient w key s)) key = None \<and>
   mcpClientCache (cleanupMCPClient w key s) = AList.delete key (mcpClientCache s) \<and>
   toolsCache (cleanupMCPClient w key s) = AList.delete key (toolsCache s) \<and>
   trace (cleanupMCPClient w key s) =
     trace s @ (case map_of (mcpClientCache s) key of
                  None \<Rightarrow> []
                | Some client \<Rightarrow> disposal w client)"
  by (simp add: cleanupMCPClient_fields map_of_delete_same)

text \<open>
  C7. Disposal is idempotent. A second \<^const>\<open>cleanupMCPClient\<close> on the same key, whatever
  the world answers, changes nothing: no further disconnect, no report. On a key with no
  handle the call only deletes the key from the tool map.
\<close>

theorem cleanupMCPClient_idempotent:
  "cleanupMCPClient w' key (cleanupMCPClient w key s) = cleanupMCPClient w key s \<and>
   (map_of (mcpClientCache s) key = None \<longrightarrow>
      cleanupMCPClient w key s = s\<lparr>toolsCache := AList.delete key (toolsCache s)\<rparr>)"
proof
  show "cleanupMCPClient w' key (cleanupMCPClient w key s) = cleanupMCPClient w key s"
    by (rule state.equality)
       (simp_all add: cleanupMCPClient_fields map_of_delete_same AList.delete_idem)
next
  show "map_of (mcpClientCache s) key = None \<longrightarrow>
      cleanupMCPClient w key s = s\<lparr>toolsCache := AList.delete key (toolsCache s)\<rparr>"
    by (simp add: cleanupMCPClient_def)
qed

text \<open>
  An instance: a key with a tool set and no handle, and a handle cleaned up twice, the
  second time in a world where every disconnect rejects.
\<close>

theorem cleanupMCPClient_idempotent_witness:
  "map_of (mcpClientCache (initial\<lparr>toolsCache := [(''k'', [])]\<rparr>)) ''k'' = None \<and>
   cleanupMCPClient failing_world ''k'' (initial\<lparr>toolsCache := [(''k'', [])]\<rparr>) = initial \<and>
   cleanupMCPClient failing_world ''gmail-u1-unauth''
       (cleanupMCPClient quiet_world ''gmail-u1-unauth'' two_clients) =
     cleanupMCPClient quiet_world ''gmail-u1-unauth'' two_clients \<and>
   trace (cleanupMCPClient quiet_world ''gmail-u1-unauth'' two_clients) =
     [Disconnect \<lparr>client_id = ''gmail-mcp-u1-0'', server_url = ''https://a''\<rparr>]"
  using cleanupMCPClient_idempotent
          [of failing_world "''k''" failing_world "initial\<lparr>toolsCache := [(''k'', [])]\<rparr>"]
        cleanupMCPClient_idempotent
          [of failing_world "''gmail-u1-unauth''" quiet_world two_clients]
  by (simp add: initial_def cleanupMCPClient_trace two_clients_def disposal_def quiet_world_def)

section \<open>Invalidating the auth status\<close>




text \<open>
  \<^const>\<open>clearGmailAgentCache\<close> on a user who was connected. The agent's \<^verbatim>\<open>tools\<close>
  function, run for \<open>u2\<close> while the provider reports the connection \<open>c2\<close>, leaves the
  client handle and the tool set under \<open>gmail-u2-c2\<close>. The helper cleans the keys
  \<open>gmail-u2-unauth\<close> and \<open>gmail-u2-null\<close>: it removes the auth-status entry, disconnects
  nothing, and the handle and the tool set of the connected state remain.
\<close>

lemma agentTools_connected_run:
  "snd (agentTools connected_world connected_world (Some [(''userId'', ''u2'')]) initial) =
     \<lparr>mcpClientCache =
        [(''gmail-u2-c2'',
          \<lparr>client_id = ''gmail-mcp-u2-5'',
           server_url = MCP_SERVER @ ''?connected_account_id=c2''\<rparr>)],
      toolsCache = [(''gmail-u2-c2'', [(''GMAIL_SEND_EMAIL'', RemoteTool ''GMAIL_SEND_EMAIL'')])],
      authStatusCache =
        [(''auth-u2'', \<lparr>connected = True, connectionId = Some ''c2'', timestamp = 5\<rparr>)],
      userSessionCache = [],
      trace = [ListConnectedAccounts ''u2'',
               GetTools \<lparr>client_id = ''gmail-mcp-u2-5'',
                         server_url = MCP_SERVER @ ''?connected_account_id=c2''\<rparr>]\<rparr>"
  by (simp add: agentTools_def getUserId_def ctx_get_def mcpUrl_def connected_world_def run_defs)

lemma clearGmailAgentCache_connected_user:
  "clearGmailAgentCache quiet_world ''u2''
     (snd (agentTools connected_world connected_world (Some [(''userId'', ''u2'')]) initial)) =
   \<lparr>mcpClientCache =
      [(''gmail-u2-c2'',
        \<lparr>client_id = ''gmail-mcp-u2-5'',
         server_url = MCP_SERVER @ ''?connected_account_id=c2''\<rparr>)],
    toolsCache = [(''gmail-u2-c2'', [(''GMAIL_SEND_EMAIL'', RemoteTool ''GMAIL_SEND_EMAIL'')])],
    authStatusCache = [],
    userSessionCache = [],
    trace = [ListConnectedAccounts ''u2'',
             GetTools \<lparr>client_id = ''gmail-mcp-u2-5'',
                       server_url = MCP_SERVER @ ''?connected_account_id=c2''\<rparr>]\<rparr>"
  by (simp add: agentTools_connected_run clearGmailAgentCache_def cleanupMCPClient_def Let_def)

section \<open>Shutdown\<close>

lemma cleanupLoop_sweep:
  "mcpClientCache s = m \<Longrightarrow> distinct (map fst m) \<Longrightarrow>
     mcpClientCache (cleanupLoop w (map fst m) s) = [] \<and>
     authStatusCache (cleanupLoop w (map fst m) s) = authStatusCache s \<and>
     userSessionCache (cleanupLoop w (map fst m) s) = userSessionCache s \<and>
     trace (cleanupLoop w (map fst m) s) = trace s @ concat (map (\<lambda>(k, c). disposal w c) m)"
proof (induction m arbitrary: s)
  case Nil
  then show ?case by simp
next
  case (Cons p m)
  obtain k c where p: "p = (k, c)" by (cases p)
  let ?s1 = "cleanupMCPClient w k s"
  from Cons.prems p have notin: "k \<notin> fst ` set m" and dist: "distinct (map fst m)"
    by auto
  have cache: "mcpClientCache ?s1 = m"
    using Cons.prems(1) p notin by (simp add: cleanupMCPClient_mcpClientCache)
  have tr: "trace ?s1 = trace s @ disposal w c"
    using Cons.prems(1) p by (simp add: cleanupMCPClient_trace)
  from Cons.IH[OF cache dist] show ?case
    using Cons.prems(1) p by (simp add: tr cleanupMCPClient_others)
qed

lemma disconnects_append: "disconnects (xs @ ys) = disconnects xs @ disconnects ys"
  by (induction xs rule: disconnects.induct) simp_all

lemma disconnects_disposal: "disconnects (disposal w c) = [c]"
  by (simp add: disposal_def split: option.split)

lemma disconnects_sweep:
  "disconnects (concat (map (\<lambda>(k, c). disposal w c) m)) = map snd m"
  by (induction m) (auto simp: disconnects_append disconnects_disposal)

text \<open>
  C5. \<^const>\<open>cleanupGmailAgent\<close> empties all four maps and disposes every client handle
  exactly once, in the map's order, whichever disconnects reject: the trace grows by the
  disposal of each handle, so the clients it disconnects are exactly the handles that were
  present. The keys of a \<^verbatim>\<open>Map\<close> are distinct, which is the hypothesis.
\<close>

theorem cleanupGmailAgent_sweeps_everything:
  assumes "distinct (map fst (mcpClientCache s))"
  shows "mcpClientCache (cleanupGmailAgent w s) = [] \<and>
         toolsCache (cleanupGmailAgent w s) = [] \<and>
         authStatusCache (cleanupGmailAgent w s) = [] \<and>
         userSessionCache (cleanupGmailAgent w s) = [] \<and>
         trace (cleanupGmailAgent w s) =
           trace s @ concat (map (\<lambda>(k, c). disposal w c) (mcpClientCache s)) \<and>
         disconnects (trace (cleanupGmailAgent w s)) =
           disconnects (trace s) @ map snd (mcpClientCache s)"
  using cleanupLoop_sweep[OF refl assms, of w]
  by (simp add: cleanupGmailAgent_def Let_def disconnects_append disconnects_sweep)

text \<open>An instance: two handles, and every disconnect rejects.\<close>

theorem cleanupGmailAgent_sweeps_everything_witness:
  "distinct (map fst (mcpClientCache two_clients)) \<and>
   mcpClientCache (cleanupGmailAgent failing_world two_clients) = [] \<and>
   toolsCache (cleanupGmailAgent failing_world two_clients) = [] \<and>
   authStatusCache (cleanupGmailAgent failing_world two_clients) = [] \<and>
   userSessionCache (cleanupGmailAgent failing_world two_clients) = [] \<and>
   trace (cleanupGmailAgent failing_world two_clients) =
     [Disconnect \<lparr>client_id = ''gmail-mcp-u1-0'', server_url = ''https://a''\<rparr>,
      ConsoleError ''Error disconnecting MCP client:'' (Thrown ''Error: socket closed''),
      Disconnect \<lparr>client_id = ''gmail-mcp-u2-5'', server_url = ''https://b''\<rparr>,
      ConsoleError ''Error disconnecting MCP client:'' (Thrown ''Error: socket closed'')]"
proof -
  have d: "distinct (map fst (mcpClientCache two_clients))"
    by (simp add: two_clients_def)
  show ?thesis
    using d cleanupGmailAgent_sweeps_everything[OF d, of failing_world]
    by (simp add: two_clients_def disposal_def failing_world_def)
qed

section \<open>User ids\<close>

text \<open>
  C9. When the context supplies a user id (a non-empty string), \<^const>\<open>getUserId\<close> returns
  it and leaves the state unchanged. When it supplies none and the session has no user id
  yet, the call returns the generated UUID and stores it under the session id. After a
  call that supplied no user id, every later call that supplies none and belongs to the
  same session returns the user id of that first call and changes nothing, whatever
  \<^const>\<open>getUserId\<close> calls came in between and whatever UUIDs the generator would give.
\<close>

theorem getUserId_stable_per_session:
  "(truthy (ctx_get rc ''userId'') = Some u \<longrightarrow> getUserId w rc s = (u, s)) \<and>
   (truthy (ctx_get rc ''userId'') = None \<and> map_of (userSessionCache s) (sessionOf rc) = None \<longrightarrow>
      getUserId w rc s =
        (uuidv4 w,
         s\<lparr>userSessionCache := AList.update (sessionOf rc) (uuidv4 w) (userSessionCache s)\<rparr>)) \<and>
   (truthy (ctx_get rc ''userId'') = None \<and> truthy (ctx_get rc' ''userId'') = None \<and>
    sessionOf rc' = sessionOf rc \<longrightarrow>
      getUserId w' rc' (getUserId_calls calls (snd (getUserId w rc s))) =
        (fst (getUserId w rc s), getUserId_calls calls (snd (getUserId w rc s))))"
proof (intro conjI impI)
  assume "truthy (ctx_get rc ''userId'') = Some u"
  then show "getUserId w rc s = (u, s)" by (rule getUserId_provided)
next
  assume "truthy (ctx_get rc ''userId'') = None \<and> map_of (userSessionCache s) (sessionOf rc) = None"
  then show "getUserId w rc s =
        (uuidv4 w,
         s\<lparr>userSessionCache := AList.update (sessionOf rc) (uuidv4 w) (userSessionCache s)\<rparr>)"
    by (simp add: getUserId_session)
next
  let ?s1 = "snd (getUserId w rc s)" and ?u1 = "fst (getUserId w rc s)"
  assume a: "truthy (ctx_get rc ''userId'') = None \<and> truthy (ctx_get rc' ''userId'') = None \<and>
    sessionOf rc' = sessionOf rc"
  then have "map_of (userSessionCache ?s1) (sessionOf rc) = Some ?u1"
    by (simp add: getUserId_records_session)
  then have "map_of (userSessionCache (getUserId_calls calls ?s1)) (sessionOf rc') = Some ?u1"
    using a by (simp add: getUserId_calls_keep_session)
  then show "getUserId w' rc' (getUserId_calls calls ?s1) = (?u1, getUserId_calls calls ?s1)"
    using a by (simp add: getUserId_session)
qed

text \<open>
  An instance: a context naming the user \<open>alice\<close>; then a first call for the session \<open>s1\<close>,
  a call with no context in between, and a second call for \<open>s1\<close> whose user id is the
  empty string.
\<close>

theorem getUserId_stable_per_session_witness:
  "truthy (ctx_get (Some [(''userId'', ''alice'')]) ''userId'') = Some ''alice'' \<and>
   getUserId quiet_world (Some [(''userId'', ''alice'')]) initial = (''alice'', initial) \<and>
   truthy (ctx_get (Some [(''sessionId'', ''s1'')]) ''userId'') = None \<and>
   map_of (userSessionCache initial) (sessionOf (Some [(''sessionId'', ''s1'')])) = None \<and>
   getUserId quiet_world (Some [(''sessionId'', ''s1'')]) initial =
     (''uuid-1'', initial\<lparr>userSessionCache := [(''s1'', ''uuid-1'')]\<rparr>) \<and>
   truthy (ctx_get (Some [(''sessionId'', ''s1''), (''userId'', '''')]) ''userId'') = None \<and>
   sessionOf (Some [(''sessionId'', ''s1''), (''userId'', '''')]) =
     sessionOf (Some [(''sessionId'', ''s1'')]) \<and>
   fst (getUserId failing_world (Some [(''sessionId'', ''s1''), (''userId'', '''')])
          (getUserId_calls [(failing_world, None)]
             (snd (getUserId quiet_world (Some [(''sessionId'', ''s1'')]) initial)))) = ''uuid-1''"
proof -
  let ?rc = "Some [(''sessionId'', ''s1'')]"
  let ?rc' = "Some [(''sessionId'', ''s1''), (''userId'', '''')]"
  have h1: "truthy (ctx_get (Some [(''userId'', ''alice'')]) ''userId'') = Some ''alice''"
    by (simp add: truthy_def ctx_get_def)
  have h2: "truthy (ctx_get ?rc ''userId'') = None"
    by (simp add: truthy_def ctx_get_def)
  have h3: "map_of (userSessionCache initial) (sessionOf ?rc) = None"
    by (simp add: initial_def)
  have h4: "truthy (ctx_get ?rc' ''userId'') = None"
    by (simp add: truthy_def ctx_get_def)
  have h5: "sessionOf ?rc' = sessionOf ?rc"
    by (simp add: sessionOf_def ctx_get_def)
  have sid: "sessionOf ?rc = ''s1''"
    by (simp add: sessionOf_def ctx_get_def or_else_def truthy_def)
  have u: "uuidv4 quiet_world = ''uuid-1''"
    by (simp add: quiet_world_def)
  note provided =
    getUserId_stable_per_session
      [where rc = "Some [(''userId'', ''alice'')]" and u = "''alice''" and w = quiet_world
         and s = initial]
  note session =
    getUserId_stable_per_session
      [where rc = ?rc and rc' = ?rc' and w = quiet_world and w' = failing_world
         and s = initial and calls = "[(failing_world, None)]"]
  have c1: "getUserId quiet_world (Some [(''userId'', ''alice'')]) initial = (''alice'', initial)"
    using provided h1 by blast
  have "getUserId quiet_world ?rc initial =
      (uuidv4 quiet_world,
       initial\<lparr>userSessionCache :=
           AList.update (sessionOf ?rc) (uuidv4 quiet_world) (userSessionCache initial)\<rparr>)"
    using session h2 h3 by blast
  then have c2: "getUserId quiet_world ?rc initial =
      (''uuid-1'', initial\<lparr>userSessionCache := [(''s1'', ''uuid-1'')]\<rparr>)"
    by (simp add: sid u initial_def)
  have "getUserId failing_world ?rc'
          (getUserId_calls [(failing_world, None)] (snd (getUserId quiet_world ?rc initial))) =
      (fst (getUserId quiet_world ?rc initial),
       getUserId_calls [(failing_world, None)] (snd (getUserId quiet_world ?rc initial)))"
    using session h2 h4 h5 by blast
  then have c3: "fst (getUserId failing_world ?rc'
          (getUserId_calls [(failing_world, None)] (snd (getUserId quiet_world ?rc initial)))) =
      ''uuid-1''"
    by (simp add: c2)
  show ?thesis
    by (intro conjI) (fact h1 c1 h2 h3 c2 h4 h5 c3)+
qed

section \<open>GmailAuth\<close>

text \<open>
  C10. \<^const>\<open>checkConnection\<close> always returns, and so does
  \<^const>\<open>getConnectedAccountId\<close>. When the provider query fails, \<^const>\<open>checkConnection\<close>
  returns \<open>connected = false\<close> with an \<open>error\<close> text and no connection id, and
  \<^const>\<open>getConnectedAccountId\<close> returns \<^verbatim>\<open>null\<close>.
\<close>

theorem checkConnection_never_raises:
  "(\<exists>r. checkConnection list this = Inr r) \<and>
   (\<exists>a. getConnectedAccountId list this = Inr a) \<and>
   (list (this_userId this) GMAIL_AUTH_CONFIG_ID = Inl (Thrown e) \<longrightarrow>
      checkConnection list this =
        Inr \<lparr>check_connected = False, check_connectionId = None, check_message = None,
             check_error = Some (''Failed to check Gmail connection: '' @ e)\<rparr> \<and>
      getConnectedAccountId list this = Inr None)"
proof (intro conjI impI)
  show r: "\<exists>r. checkConnection list this = Inr r"
    by (cases "list (this_userId this) GMAIL_AUTH_CONFIG_ID")
       (auto simp: checkConnection_def checkConnection_try_def Let_def split: error.split)
  then show "\<exists>a. getConnectedAccountId list this = Inr a"
    by (auto simp: getConnectedAccountId_def)
next
  assume failed: "list (this_userId this) GMAIL_AUTH_CONFIG_ID = Inl (Thrown e)"
  then show c: "checkConnection list this =
        Inr \<lparr>check_connected = False, check_connectionId = None, check_message = None,
             check_error = Some (''Failed to check Gmail connection: '' @ e)\<rparr>"
    by (simp add: checkConnection_def checkConnection_try_def)
  show "getConnectedAccountId list this = Inr None"
    by (simp add: getConnectedAccountId_def c)
qed

text \<open>An instance: the provider rejects every query.\<close>

theorem checkConnection_never_raises_witness:
  "rejecting_provider (this_userId \<lparr>this_userId = ''u1''\<rparr>) GMAIL_AUTH_CONFIG_ID =
     Inl (Thrown ''Error: 401'') \<and>
   checkConnection rejecting_provider \<lparr>this_userId = ''u1''\<rparr> =
     Inr \<lparr>check_connected = False, check_connectionId = None, check_message = None,
          check_error = Some ''Failed to check Gmail connection: Error: 401''\<rparr> \<and>
   getConnectedAccountId rejecting_provider \<lparr>this_userId = ''u1''\<rparr> = Inr None"
proof -
  have h: "rejecting_provider (this_userId \<lparr>this_userId = ''u1''\<rparr>) GMAIL_AUTH_CONFIG_ID =
      Inl (Thrown ''Error: 401'')"
    by (simp add: rejecting_provider_def)
  from checkConnection_never_raises
         [where list = rejecting_provider and this = "\<lparr>this_userId = ''u1''\<rparr>"
            and e = "''Error: 401''"]
       h
  show ?thesis by simp
qed

end
